theory Spec2Isabelle
  imports Main "HOL-Library.Multiset"
begin

section \<open>Values of the host language\<close>

text \<open>
  A JavaScript \<open>number\<close> that holds a count of milliseconds or of days is an integer or
  \<open>NaN\<close>.  Time values of \<open>Date\<close> objects are integers by construction; the quotient
  and the rounding of \<open>daysBetween\<close> are modelled exactly, which is what the
  double-precision operations compute on the range of calendar dates.
  Comparisons with \<open>NaN\<close> are false, arithmetic on \<open>NaN\<close> gives \<open>NaN\<close>.
\<close>

datatype number = NaN | Num int

fun num_lt :: "number \<Rightarrow> number \<Rightarrow> bool" where
  "num_lt (Num a) (Num b) = (a < b)"
| "num_lt _ _ = False"

fun num_le :: "number \<Rightarrow> number \<Rightarrow> bool" where
  "num_le (Num a) (Num b) = (a \<le> b)"
| "num_le _ _ = False"

fun num_gt :: "number \<Rightarrow> number \<Rightarrow> bool" where
  "num_gt (Num a) (Num b) = (a > b)"
| "num_gt _ _ = False"


fun num_sub :: "number \<Rightarrow> number \<Rightarrow> number" where
  "num_sub (Num a) (Num b) = Num (a - b)"
| "num_sub _ _ = NaN"


text \<open>
  \<open>Math.round(p / q)\<close> for an integer \<open>p\<close> and a positive integer \<open>q\<close>: the nearest
  integer, a tie going up (towards plus infinity), that is \<open>\<lfloor>p / q + 1/2\<rfloor>\<close>.
\<close>

fun Math_round_div :: "number \<Rightarrow> int \<Rightarrow> number" where
  "Math_round_div (Num p) q = Num ((2 * p + q) div (2 * q))"
| "Math_round_div NaN q = NaN"

text \<open>The decimal string of an integer, as a template literal prints it.\<close>

definition digit_char :: "nat \<Rightarrow> char" where
  "digit_char d = char_of (48 + d)"

fun digits_of_nat :: "nat \<Rightarrow> string" where
  "digits_of_nat n =
     (if n < 10 then [digit_char n] else digits_of_nat (n div 10) @ [digit_char (n mod 10)])"

declare digits_of_nat.simps [simp del]

fun String_of_number :: "number \<Rightarrow> string" where
  "String_of_number NaN = ''NaN''"
| "String_of_number (Num i) =
     (if i < 0 then CHR ''-'' # digits_of_nat (nat (- i)) else digits_of_nat (nat i))"

text \<open>
  What the functions below take from the runtime, which is not code of the program:
  the \<open>Date\<close> constructor on a string (its time value in milliseconds, \<open>NaN\<close> for an
  invalid date), the local start of the day of a time value (\<open>setHours(0, 0, 0, 0)\<close>),
  \<open>toLocaleDateString\<close> with the options of \<open>formatDate\<close>, and \<open>toLowerCase\<close>.
  Every theorem holds for every runtime; \<open>sample_runtime\<close> below is one of them.
\<close>

record runtime =
  Date_parse :: "string \<Rightarrow> number"
  startOfDay :: "int \<Rightarrow> int"
  toLocaleDateString :: "number \<Rightarrow> string"
  toLowerCase :: "string \<Rightarrow> string"

text \<open>\<open>date.setHours(0, 0, 0, 0)\<close>: an invalid date stays invalid.\<close>

fun setHours0 :: "runtime \<Rightarrow> number \<Rightarrow> number" where
  "setHours0 rt (Num t) = Num (startOfDay rt t)"
| "setHours0 rt NaN = NaN"

section \<open>Types of the pantry tracker\<close>

text \<open>
  The string-literal unions of the program are datatypes.  A constructor is the literal
  without its blanks and ampersands (\<open>'Meat & Seafood'\<close> is \<open>MeatSeafood\<close>); the source
  tags \<open>'low-stock'\<close> and \<open>'expired'\<close> are \<open>low_stock\<close> and \<open>src_expired\<close>.
\<close>

datatype Category =
  Dairy | Produce | MeatSeafood | Bakery | GrainsPasta | CannedGoods | FrozenFoods
  | Beverages | CondimentsSauces | Snacks | SpicesHerbs | Other

datatype Unit =
  pieces | cups | lbs | oz | kg | g | ml | liters | gallons | quarts | pints
  | tablespoons | teaspoons | packages | bottles | cans | boxes | bags

datatype ExpirationStatus = expired | expiring | fresh

datatype Source = manual | low_stock | src_expired

text \<open>
  The quantity of an item is a JavaScript \<open>number\<close> that the program only adds,
  compares and writes as the literals 1 and 2.  Its type is left open: \<open>'q\<close> is any type
  with these operations, and no law of arithmetic is assumed of them.
\<close>

record 'q PantryItem =
  p_id :: string
  p_name :: string
  p_category :: Category
  p_quantity :: 'q
  p_unit :: Unit
  p_expirationDate :: string
  p_createdAt :: string
  p_updatedAt :: "string option"

record 'q ShoppingItem =
  s_id :: string
  s_name :: string
  s_category :: Category
  s_quantity :: 'q
  s_unit :: Unit
  s_checked :: bool
  s_source :: Source
  s_createdAt :: string

record 'q PantryItemFormData =
  f_name :: string
  f_category :: Category
  f_quantity :: 'q
  f_unit :: Unit
  f_expirationDate :: string

text \<open>\<open>Partial<PantryItemFormData>\<close>: every field may be absent.\<close>

record 'q PartialFormData =
  u_name :: "string option"
  u_category :: "Category option"
  u_quantity :: "'q option"
  u_unit :: "Unit option"
  u_expirationDate :: "string option"

section \<open>Expiration utilities\<close>

definition oneDay :: int where
  "oneDay = 24 * 60 * 60 * 1000"

definition daysBetween :: "number \<Rightarrow> number \<Rightarrow> number" where
  "daysBetween date1 date2 = (let diffTime = num_sub date2 date1 in Math_round_div diffTime oneDay)"

text \<open>
  \<open>now\<close> is the reading of the clock, the time value of \<open>new Date()\<close>.
\<close>

definition getExpirationStatus :: "runtime \<Rightarrow> int \<Rightarrow> string \<Rightarrow> ExpirationStatus" where
  "getExpirationStatus rt now expirationDate =
     (let today = setHours0 rt (Num now);
          expDate = setHours0 rt (Date_parse rt expirationDate);
          daysUntilExpiration = daysBetween today expDate
      in if num_lt daysUntilExpiration (Num 0) then expired
         else if num_le daysUntilExpiration (Num 3) then expiring
         else fresh)"



text \<open>\<open>isLowStock(quantity, threshold = 2)\<close>: \<open>None\<close> is the omitted argument.\<close>

definition isLowStock :: "'q::{numeral,ord} \<Rightarrow> 'q option \<Rightarrow> bool" where
  "isLowStock quantity threshold =
     (quantity < (case threshold of None \<Rightarrow> 2 | Some t \<Rightarrow> t))"

definition getExpiredItems :: "runtime \<Rightarrow> int \<Rightarrow> ('a \<Rightarrow> string) \<Rightarrow> 'a list \<Rightarrow> 'a list" where
  "getExpiredItems rt now expirationDate items =
     filter (\<lambda>item. getExpirationStatus rt now (expirationDate item) = expired) items"

definition getExpiringItems :: "runtime \<Rightarrow> int \<Rightarrow> ('a \<Rightarrow> string) \<Rightarrow> 'a list \<Rightarrow> 'a list" where
  "getExpiringItems rt now expirationDate items =
     filter (\<lambda>item. getExpirationStatus rt now (expirationDate item) = expiring) items"

subsection \<open>Sorting\<close>

text \<open>
  \<open>Array.prototype.sort\<close> is stable, reads a comparator's \<open>NaN\<close> as 0, and for a
  consistent comparator its result is fixed by the language whatever algorithm an engine
  runs.  It is modelled by the stable insertion sort below.  The sort works in place: it
  changes the array it is called on and returns that same array.  Arrays therefore live in
  a store, a list of arrays addressed by position; \<open>[...a]\<close> allocates a new array.
\<close>

fun insert_sorted :: "('a \<Rightarrow> 'a \<Rightarrow> number) \<Rightarrow> 'a \<Rightarrow> 'a list \<Rightarrow> 'a list" where
  "insert_sorted cmp x [] = [x]"
| "insert_sorted cmp x (y # ys) =
     (if num_gt (cmp x y) (Num 0) then y # insert_sorted cmp x ys else x # y # ys)"

definition stable_sort :: "('a \<Rightarrow> 'a \<Rightarrow> number) \<Rightarrow> 'a list \<Rightarrow> 'a list" where
  "stable_sort cmp xs = foldr (insert_sorted cmp) xs []"

type_synonym 'a arrays = "'a list list"

definition Array_spread :: "'a arrays \<Rightarrow> nat \<Rightarrow> nat \<times> 'a arrays" where
  "Array_spread h a = (length h, h @ [h ! a])"

definition Array_sort :: "('a \<Rightarrow> 'a \<Rightarrow> number) \<Rightarrow> 'a arrays \<Rightarrow> nat \<Rightarrow> nat \<times> 'a arrays" where
  "Array_sort cmp h a = (a, h[a := stable_sort cmp (h ! a)])"

text \<open>The comparator of both sorts: the difference of the two parsed dates.\<close>

definition compareDates :: "runtime \<Rightarrow> ('a \<Rightarrow> string) \<Rightarrow> 'a \<Rightarrow> 'a \<Rightarrow> number" where
  "compareDates rt expirationDate a b =
     (let dateA = Date_parse rt (expirationDate a);
          dateB = Date_parse rt (expirationDate b)
      in num_sub dateA dateB)"

text \<open>
  \<open>sortByExpirationDate(items)\<close>, with \<open>items\<close> the address of the argument: the address
  of the result and the store afterwards.
\<close>

definition sortByExpirationDate ::
  "runtime \<Rightarrow> ('a \<Rightarrow> string) \<Rightarrow> 'a arrays \<Rightarrow> nat \<Rightarrow> nat \<times> 'a arrays" where
  "sortByExpirationDate rt expirationDate h items =
     (let (copy, h1) = Array_spread h items
      in Array_sort (compareDates rt expirationDate) h1 copy)"

section \<open>The store\<close>

record 'q PantryStore =
  items :: "'q PantryItem list"
  shoppingList :: "'q ShoppingItem list"

definition initial_state :: "'q PantryStore" where
  "initial_state = \<lparr>items = [], shoppingList = []\<rparr>"

text \<open>
  \<open>generateId()\<close> and \<open>new Date().toISOString()\<close> read the clock and the random
  generator: the values they return are arguments (\<open>newId\<close>, \<open>now\<close>) of the operations
  that call them.
\<close>

definition addItem :: "string \<Rightarrow> string \<Rightarrow> 'q PantryItemFormData \<Rightarrow> 'q PantryStore \<Rightarrow> 'q PantryStore" where
  "addItem newId now data state =
     (let newItem = \<lparr>p_id = newId, p_name = f_name data, p_category = f_category data,
            p_quantity = f_quantity data, p_unit = f_unit data,
            p_expirationDate = f_expirationDate data,
            p_createdAt = now, p_updatedAt = Some now\<rparr>
      in state\<lparr>items := items state @ [newItem]\<rparr>)"

text \<open>\<open>{ ...item, ...data }\<close>: the fields present in \<open>data\<close> replace those of \<open>item\<close>.\<close>

definition spread_data :: "'q PantryItem \<Rightarrow> 'q PartialFormData \<Rightarrow> 'q PantryItem" where
  "spread_data item data =
     item\<lparr>p_name := (case u_name data of None \<Rightarrow> p_name item | Some v \<Rightarrow> v),
          p_category := (case u_category data of None \<Rightarrow> p_category item | Some v \<Rightarrow> v),
          p_quantity := (case u_quantity data of None \<Rightarrow> p_quantity item | Some v \<Rightarrow> v),
          p_unit := (case u_unit data of None \<Rightarrow> p_unit item | Some v \<Rightarrow> v),
          p_expirationDate :=
            (case u_expirationDate data of None \<Rightarrow> p_expirationDate item | Some v \<Rightarrow> v)\<rparr>"

definition updateItem :: "string \<Rightarrow> string \<Rightarrow> 'q PartialFormData \<Rightarrow> 'q PantryStore \<Rightarrow> 'q PantryStore" where
  "updateItem now ident data state =
     state\<lparr>items :=
       map (\<lambda>item. if p_id item = ident
                   then (spread_data item data)\<lparr>p_updatedAt := Some now\<rparr>
                   else item)
           (items state)\<rparr>"

definition removeItem :: "string \<Rightarrow> 'q PantryStore \<Rightarrow> 'q PantryStore" where
  "removeItem ident state =
     state\<lparr>items := filter (\<lambda>item. p_id item \<noteq> ident) (items state)\<rparr>"

definition getItemById :: "string \<Rightarrow> 'q PantryStore \<Rightarrow> 'q PantryItem option" where
  "getItemById ident state = find (\<lambda>item. p_id item = ident) (items state)"

definition addToShoppingList ::
  "runtime \<Rightarrow> string \<Rightarrow> string \<Rightarrow> string \<Rightarrow> Category \<Rightarrow> 'q::plus \<Rightarrow> Unit \<Rightarrow> Source
     \<Rightarrow> 'q PantryStore \<Rightarrow> 'q PantryStore" where
  "addToShoppingList rt newId now name category quantity unit source state =
     (case find (\<lambda>item. toLowerCase rt (s_name item) = toLowerCase rt name)
                (shoppingList state) of
        Some existing \<Rightarrow>
          state\<lparr>shoppingList :=
            map (\<lambda>item. if s_id item = s_id existing
                        then item\<lparr>s_quantity := s_quantity item + quantity\<rparr>
                        else item)
                (shoppingList state)\<rparr>
      | None \<Rightarrow>
          (let newItem = \<lparr>s_id = newId, s_name = name, s_category = category,
                 s_quantity = quantity, s_unit = unit, s_checked = False,
                 s_source = source, s_createdAt = now\<rparr>
           in state\<lparr>shoppingList := shoppingList state @ [newItem]\<rparr>))"

definition toggleShoppingItem :: "string \<Rightarrow> 'q PantryStore \<Rightarrow> 'q PantryStore" where
  "toggleShoppingItem ident state =
     state\<lparr>shoppingList :=
       map (\<lambda>item. if s_id item = ident then item\<lparr>s_checked := \<not> s_checked item\<rparr> else item)
           (shoppingList state)\<rparr>"

definition removeShoppingItem :: "string \<Rightarrow> 'q PantryStore \<Rightarrow> 'q PantryStore" where
  "removeShoppingItem ident state =
     state\<lparr>shoppingList := filter (\<lambda>item. s_id item \<noteq> ident) (shoppingList state)\<rparr>"

definition clearCheckedItems :: "'q PantryStore \<Rightarrow> 'q PantryStore" where
  "clearCheckedItems state =
     state\<lparr>shoppingList := filter (\<lambda>item. \<not> s_checked item) (shoppingList state)\<rparr>"

definition clearShoppingList :: "'q PantryStore \<Rightarrow> 'q PantryStore" where
  "clearShoppingList state = state\<lparr>shoppingList := []\<rparr>"

text \<open>
  \<open>xs.forEach(f)\<close> on a callback that changes the state: the calls run in the order of
  the array, each on the state the previous one left.  The callback also gets its
  position \<open>k\<close>, which selects what the clock and the random generator give that call.
\<close>

fun forEach :: "(nat \<Rightarrow> 'a \<Rightarrow> 's \<Rightarrow> 's) \<Rightarrow> nat \<Rightarrow> 'a list \<Rightarrow> 's \<Rightarrow> 's" where
  "forEach f k [] s = s"
| "forEach f k (x # xs) s = forEach f (Suc k) xs (f k x s)"

text \<open>
  \<open>xs.filter(p)\<close>: the callback is called on every element in the order of the array.
  It gets the element and its position \<open>k\<close>, which selects what the clock gives that call.
\<close>

fun Array_filter :: "(nat \<Rightarrow> 'a \<Rightarrow> bool) \<Rightarrow> nat \<Rightarrow> 'a list \<Rightarrow> 'a list" where
  "Array_filter p k [] = []"
| "Array_filter p k (x # xs) =
     (if p k x then x # Array_filter p (Suc k) xs else Array_filter p (Suc k) xs)"

text \<open>
  The auto-populate actions.  The filter calls \<open>getExpirationStatus\<close>, which reads the
  clock, once for each pantry item: \<open>clock k\<close> is the reading of the clock in the call for
  the item at position \<open>k\<close> of the pantry.  \<open>gen k\<close> is the pair of the id and the
  timestamp that the \<open>k\<close>-th call of \<open>addToShoppingList\<close> draws if it creates an entry.
  The result is the returned count and the state afterwards.
\<close>

definition autoAddLowStockToShoppingList ::
  "runtime \<Rightarrow> (nat \<Rightarrow> int) \<Rightarrow> (nat \<Rightarrow> string \<times> string) \<Rightarrow> 'q::{numeral,ord} PantryStore
     \<Rightarrow> nat \<times> 'q PantryStore" where
  "autoAddLowStockToShoppingList rt clock gen state =
     (let lowStockItems =
            Array_filter (\<lambda>k item. isLowStock (p_quantity item) None
                      \<and> getExpirationStatus rt (clock k) (p_expirationDate item) \<noteq> expired)
                   0 (items state);
          state' =
            forEach (\<lambda>k item. addToShoppingList rt (fst (gen k)) (snd (gen k))
                        (p_name item) (p_category item) 2 (p_unit item) low_stock)
                    0 lowStockItems state
      in (length lowStockItems, state'))"

definition autoAddExpiredToShoppingList ::
  "runtime \<Rightarrow> (nat \<Rightarrow> int) \<Rightarrow> (nat \<Rightarrow> string \<times> string) \<Rightarrow> 'q::{numeral,ord} PantryStore
     \<Rightarrow> nat \<times> 'q PantryStore" where
  "autoAddExpiredToShoppingList rt clock gen state =
     (let expiredItems =
            Array_filter (\<lambda>k item.
                      getExpirationStatus rt (clock k) (p_expirationDate item) = expired)
                   0 (items state);
          state' =
            forEach (\<lambda>k item. addToShoppingList rt (fst (gen k)) (snd (gen k))
                        (p_name item) (p_category item) 1 (p_unit item) src_expired)
                    0 expiredItems state
      in (length expiredItems, state'))"

definition getItemsByCategory :: "Category \<Rightarrow> 'q PantryStore \<Rightarrow> 'q PantryItem list" where
  "getItemsByCategory category state = filter (\<lambda>item. p_category item = category) (items state)"

text \<open>
  \<open>getSortedByExpiration()\<close>: the store's \<open>items\<close> array is at address 0 of the arrays; the
  result is the returned array and the state with the \<open>items\<close> array as the call left it.
\<close>

definition getSortedByExpiration ::
  "runtime \<Rightarrow> 'q PantryStore \<Rightarrow> 'q PantryItem list \<times> 'q PantryStore" where
  "getSortedByExpiration rt state =
     (let h = [items state];
          (copy, h1) = Array_spread h 0;
          (r, h2) = Array_sort (compareDates rt p_expirationDate) h1 copy
      in (h2 ! r, state\<lparr>items := h2 ! 0\<rparr>))"

section \<open>Notions of the specification\<close>

text \<open>
  The day count \<open>d\<close> that the specification speaks of: \<open>daysBetween\<close> of today at
  midnight and the expiration date at midnight.
\<close>

definition daysUntil :: "runtime \<Rightarrow> int \<Rightarrow> string \<Rightarrow> number" where
  "daysUntil rt now expirationDate =
     daysBetween (setHours0 rt (Num now)) (setHours0 rt (Date_parse rt expirationDate))"

text \<open>Two names are equal case-insensitively.\<close>

definition same_name :: "runtime \<Rightarrow> string \<Rightarrow> string \<Rightarrow> bool" where
  "same_name rt a b = (toLowerCase rt a = toLowerCase rt b)"

text \<open>The key of the expiration sort: the parsed date of an item, for a date that parses.\<close>

definition parsed :: "runtime \<Rightarrow> string \<Rightarrow> int" where
  "parsed rt s = (case Date_parse rt s of Num t \<Rightarrow> t | NaN \<Rightarrow> 0)"

definition valid_date :: "runtime \<Rightarrow> string \<Rightarrow> bool" where
  "valid_date rt s = (case Date_parse rt s of Num t \<Rightarrow> True | NaN \<Rightarrow> False)"

text \<open>
  The pantry items that the specification has the two auto-populate actions select, in
  the order of the pantry: the item at position \<open>k\<close> is classified when the action comes
  to it, at the clock reading \<open>clock k\<close>.
\<close>

definition spec_low_stock_selection ::
  "runtime \<Rightarrow> (nat \<Rightarrow> int) \<Rightarrow> 'q::{numeral,ord} PantryItem list \<Rightarrow> 'q PantryItem list" where
  "spec_low_stock_selection rt clock xs =
     map snd
       (filter (\<lambda>(k, item). p_quantity item < 2
                  \<and> getExpirationStatus rt (clock k) (p_expirationDate item) \<noteq> expired)
               (zip [0..<length xs] xs))"

definition spec_expired_selection ::
  "runtime \<Rightarrow> (nat \<Rightarrow> int) \<Rightarrow> 'q PantryItem list \<Rightarrow> 'q PantryItem list" where
  "spec_expired_selection rt clock xs =
     map snd
       (filter (\<lambda>(k, item). getExpirationStatus rt (clock k) (p_expirationDate item) = expired)
               (zip [0..<length xs] xs))"

text \<open>
  The shopping-list entry that \<open>addToShoppingList\<close> creates for its arguments.
\<close>

definition new_entry ::
  "string \<Rightarrow> string \<Rightarrow> string \<Rightarrow> Category \<Rightarrow> 'q \<Rightarrow> Unit \<Rightarrow> Source \<Rightarrow> 'q ShoppingItem" where
  "new_entry newId now name category quantity unit source =
     \<lparr>s_id = newId, s_name = name, s_category = category, s_quantity = quantity,
      s_unit = unit, s_checked = False, s_source = source, s_createdAt = now\<rparr>"

section \<open>A sample runtime\<close>

text \<open>
  A runtime to evaluate the functions on: date-only strings \<open>YYYY-MM-DD\<close> parse to
  midnight UTC of that day, as ECMAScript has it, the local zone is a fixed offset from
  UTC (in milliseconds, positive to the east), and lower case is that of ASCII.
\<close>

definition digit_val :: "char \<Rightarrow> int option" where
  "digit_val c = (let n = (of_char c :: nat) in if 48 \<le> n \<and> n \<le> 57 then Some (int n - 48) else None)"

fun number_of_digits :: "int \<Rightarrow> string \<Rightarrow> int option" where
  "number_of_digits acc [] = Some acc"
| "number_of_digits acc (c # cs) =
     (case digit_val c of None \<Rightarrow> None | Some d \<Rightarrow> number_of_digits (10 * acc + d) cs)"

definition days_from_civil :: "int \<Rightarrow> int \<Rightarrow> int \<Rightarrow> int" where
  "days_from_civil y m d =
     (let y' = (if m \<le> 2 then y - 1 else y);
          era = y' div 400;
          yoe = y' - era * 400;
          doy = (153 * (if m > 2 then m - 3 else m + 9) + 2) div 5 + d - 1;
          doe = yoe * 365 + yoe div 4 - yoe div 100 + doy
      in era * 146097 + doe - 719468)"

definition civil_from_days :: "int \<Rightarrow> int \<times> int \<times> int" where
  "civil_from_days z =
     (let z' = z + 719468;
          era = z' div 146097;
          doe = z' - era * 146097;
          yoe = (doe - doe div 1460 + doe div 36524 - doe div 146096) div 365;
          doy = doe - (365 * yoe + yoe div 4 - yoe div 100);
          mp = (5 * doy + 2) div 153;
          d = doy - (153 * mp + 2) div 5 + 1;
          m = (if mp < 10 then mp + 3 else mp - 9);
          y = yoe + era * 400 + (if m \<le> 2 then 1 else 0)
      in (y, m, d))"

definition sample_parse :: "string \<Rightarrow> number" where
  "sample_parse s =
     (case s of
        [y1, y2, y3, y4, s1, m1, m2, s2, d1, d2] \<Rightarrow>
          (if s1 = CHR ''-'' \<and> s2 = CHR ''-'' then
             (case (number_of_digits 0 [y1, y2, y3, y4], number_of_digits 0 [m1, m2],
                    number_of_digits 0 [d1, d2]) of
                (Some y, Some m, Some d) \<Rightarrow>
                  (if 1 \<le> m \<and> m \<le> 12 \<and> 1 \<le> d \<and> d \<le> 31
                   then Num (days_from_civil y m d * oneDay) else NaN)
              | _ \<Rightarrow> NaN)
           else NaN)
      | _ \<Rightarrow> NaN)"

definition month_name :: "int \<Rightarrow> string" where
  "month_name m =
     (if m = 1 then ''Jan'' else if m = 2 then ''Feb'' else if m = 3 then ''Mar''
      else if m = 4 then ''Apr'' else if m = 5 then ''May'' else if m = 6 then ''Jun''
      else if m = 7 then ''Jul'' else if m = 8 then ''Aug'' else if m = 9 then ''Sep''
      else if m = 10 then ''Oct'' else if m = 11 then ''Nov'' else ''Dec'')"

definition sample_format :: "int \<Rightarrow> number \<Rightarrow> string" where
  "sample_format offset t =
     (case t of
        NaN \<Rightarrow> ''Invalid Date''
      | Num ms \<Rightarrow>
          (case civil_from_days ((ms + offset) div oneDay) of
             (y, m, d) \<Rightarrow>
               month_name m @ '' '' @ String_of_number (Num d) @ '', '' @ String_of_number (Num y)))"

definition lower_char :: "char \<Rightarrow> char" where
  "lower_char c =
     (let n = (of_char c :: nat) in if 65 \<le> n \<and> n \<le> 90 then char_of (n + 32) else c)"

definition sample_runtime :: "int \<Rightarrow> runtime" where
  "sample_runtime offset =
     \<lparr>Date_parse = sample_parse,
      startOfDay = (\<lambda>t. t - (t + offset) mod oneDay),
      toLocaleDateString = sample_format offset,
      toLowerCase = map lower_char\<rparr>"

subsection \<open>A sample store\<close>

text \<open>
  The clock reads noon UTC of 15 January 2024.  The pantry holds milk that is low and
  expires in three days, bread that is low and expired yesterday, rice in good supply,
  and a second, empty bottle of milk.
\<close>

definition sample_now :: int where
  "sample_now = 1705320000000"

definition sample_items :: "int PantryItem list" where
  "sample_items =
     [\<lparr>p_id = ''p1'', p_name = ''Milk'', p_category = Dairy, p_quantity = 1, p_unit = liters,
       p_expirationDate = ''2024-01-18'', p_createdAt = ''2024-01-10T08:00:00.000Z'',
       p_updatedAt = None\<rparr>,
      \<lparr>p_id = ''p2'', p_name = ''Bread'', p_category = Bakery, p_quantity = 1, p_unit = pieces,
       p_expirationDate = ''2024-01-14'', p_createdAt = ''2024-01-10T08:01:00.000Z'',
       p_updatedAt = None\<rparr>,
      \<lparr>p_id = ''p3'', p_name = ''Rice'', p_category = GrainsPasta, p_quantity = 5, p_unit = kg,
       p_expirationDate = ''2025-01-01'', p_createdAt = ''2024-01-10T08:02:00.000Z'',
       p_updatedAt = Some ''2024-01-11T09:00:00.000Z''\<rparr>,
      \<lparr>p_id = ''p4'', p_name = ''MILK'', p_category = Dairy, p_quantity = 0, p_unit = bottles,
       p_expirationDate = ''2024-01-16'', p_createdAt = ''2024-01-10T08:03:00.000Z'',
       p_updatedAt = None\<rparr>]"

definition sample_list :: "int ShoppingItem list" where
  "sample_list =
     [\<lparr>s_id = ''s1'', s_name = ''Eggs'', s_category = Dairy, s_quantity = 12, s_unit = pieces,
       s_checked = False, s_source = manual, s_createdAt = ''2024-01-12T10:00:00.000Z''\<rparr>,
      \<lparr>s_id = ''s2'', s_name = ''milk'', s_category = Dairy, s_quantity = 1, s_unit = liters,
       s_checked = False, s_source = manual, s_createdAt = ''2024-01-12T10:01:00.000Z''\<rparr>,
      \<lparr>s_id = ''s3'', s_name = ''Salt'', s_category = SpicesHerbs, s_quantity = 1, s_unit = packages,
       s_checked = False, s_source = manual, s_createdAt = ''2024-01-12T10:02:00.000Z''\<rparr>]"

definition sample_store :: "int PantryStore" where
  "sample_store = \<lparr>items = sample_items, shoppingList = sample_list\<rparr>"

text \<open>
  Two clocks: one that starts at \<open>sample_now\<close> and one that starts in the last
  millisecond of 15 January 2024 (UTC), each a millisecond further at every reading.
\<close>

definition sample_clock :: "nat \<Rightarrow> int" where
  "sample_clock k = sample_now + int k"

definition midnight_clock :: "nat \<Rightarrow> int" where
  "midnight_clock k = 1705363199999 + int k"

text \<open>Two low packets of yeast with the same date, 15 January 2024.\<close>

definition twin_items :: "int PantryItem list" where
  "twin_items =
     [\<lparr>p_id = ''p5'', p_name = ''Yeast'', p_category = Bakery, p_quantity = 1, p_unit = packages,
       p_expirationDate = ''2024-01-15'', p_createdAt = ''2024-01-10T08:04:00.000Z'',
       p_updatedAt = None\<rparr>,
      \<lparr>p_id = ''p6'', p_name = ''Dry yeast'', p_category = Bakery, p_quantity = 1, p_unit = packages,
       p_expirationDate = ''2024-01-15'', p_createdAt = ''2024-01-10T08:05:00.000Z'',
       p_updatedAt = None\<rparr>]"

definition sample_gen :: "nat \<Rightarrow> string \<times> string" where
  "sample_gen k = (''1705320000000-'' @ digits_of_nat k, ''2024-01-15T12:00:00.000Z'')"

section \<open>Properties of the expiration utilities\<close>

lemma daysBetween_nearest:
  "daysBetween (Num a) (Num b) = Num d \<longleftrightarrow>
     (2 * oneDay * d - oneDay \<le> 2 * (b - a) \<and> 2 * (b - a) < 2 * oneDay * d + oneDay)"
  unfolding daysBetween_def oneDay_def Let_def by simp arith

lemma daysBetween_NaN [simp]:
  "daysBetween NaN x = NaN" "daysBetween x NaN = NaN"
  by (cases x; simp add: daysBetween_def)+

lemma getExpirationStatus_daysUntil:
  "getExpirationStatus rt now s =
     (if num_lt (daysUntil rt now s) (Num 0) then expired
      else if num_le (daysUntil rt now s) (Num 3) then expiring else fresh)"
  by (simp add: getExpirationStatus_def daysUntil_def Let_def)

text \<open>
  The day count is the integer nearest to the quotient of the two midnights' distance
  by the length of a day, a tie going up.
\<close>

lemma daysUntil_Num_iff:
  "daysUntil rt now s = Num d \<longleftrightarrow>
     (\<exists>e. setHours0 rt (Date_parse rt s) = Num e \<and>
          2 * oneDay * d - oneDay \<le> 2 * (e - startOfDay rt now) \<and>
          2 * (e - startOfDay rt now) < 2 * oneDay * d + oneDay)"
  by (cases "setHours0 rt (Date_parse rt s)") (simp_all add: daysUntil_def daysBetween_nearest)

lemma daysUntil_whole_days:
  assumes "setHours0 rt (Date_parse rt s) = Num (startOfDay rt now + k * oneDay + slack)"
    and "- oneDay \<le> 2 * slack" and "2 * slack < oneDay"
  shows "daysUntil rt now s = Num k"
  using assms by (simp add: daysUntil_Num_iff algebra_simps)

text \<open>A date that does not parse has no day count, and is classified as fresh.\<close>

lemma getExpirationStatus_invalid:
  "Date_parse rt s = NaN \<Longrightarrow> daysUntil rt now s = NaN \<and> getExpirationStatus rt now s = fresh"
  by (simp add: getExpirationStatus_daysUntil) (simp add: daysUntil_def)

text \<open>
  The classifier in terms of the day count \<open>d\<close> that it computes: \<open>expired\<close> exactly
  when \<open>d < 0\<close>, \<open>expiring\<close> exactly when \<open>0 \<le> d \<le> 3\<close> and \<open>fresh\<close> exactly when
  \<open>d > 3\<close>.  A date string that the runtime lands at a midnight \<open>k\<close> days after today's
  midnight (up to less than half a day) has \<open>d = k\<close>.
\<close>

lemma getExpirationStatus_classifies:
  "(\<forall>d. daysUntil rt now s = Num d \<longrightarrow>
        (getExpirationStatus rt now s = expired \<longleftrightarrow> d < 0) \<and>
        (getExpirationStatus rt now s = expiring \<longleftrightarrow> 0 \<le> d \<and> d \<le> 3) \<and>
        (getExpirationStatus rt now s = fresh \<longleftrightarrow> 3 < d)) \<and>
   (\<forall>k slack. setHours0 rt (Date_parse rt s) = Num (startOfDay rt now + k * oneDay + slack)
        \<and> - oneDay \<le> 2 * slack \<and> 2 * slack < oneDay \<longrightarrow>
        daysUntil rt now s = Num k \<and>
        (k = 0 \<longrightarrow> getExpirationStatus rt now s = expiring) \<and>
        (k = 3 \<longrightarrow> getExpirationStatus rt now s = expiring) \<and>
        (k = 4 \<longrightarrow> getExpirationStatus rt now s = fresh) \<and>
        (k = - 1 \<longrightarrow> getExpirationStatus rt now s = expired))"
proof (intro conjI allI impI)
  fix d assume "daysUntil rt now s = Num d"
  then show "getExpirationStatus rt now s = expired \<longleftrightarrow> d < 0"
    "getExpirationStatus rt now s = expiring \<longleftrightarrow> 0 \<le> d \<and> d \<le> 3"
    "getExpirationStatus rt now s = fresh \<longleftrightarrow> 3 < d"
    by (auto simp: getExpirationStatus_daysUntil)
next
  fix k slack
  assume "setHours0 rt (Date_parse rt s) = Num (startOfDay rt now + k * oneDay + slack)
        \<and> - oneDay \<le> 2 * slack \<and> 2 * slack < oneDay"
  then have d: "daysUntil rt now s = Num k" by (simp add: daysUntil_whole_days)
  then show "daysUntil rt now s = Num k" .
  from d show "k = 0 \<Longrightarrow> getExpirationStatus rt now s = expiring"
    "k = 3 \<Longrightarrow> getExpirationStatus rt now s = expiring"
    "k = 4 \<Longrightarrow> getExpirationStatus rt now s = fresh"
    "k = - 1 \<Longrightarrow> getExpirationStatus rt now s = expired"
    by (simp_all add: getExpirationStatus_daysUntil)
qed

text \<open>
  At noon UTC of 15 January 2024, one hour east of UTC, the date \<open>2024-01-18\<close> is three
  days away and expiring.
\<close>

lemma getExpirationStatus_classifies_example:
  "daysUntil (sample_runtime 3600000) 1705320000000 ''2024-01-18'' = Num 3 \<and>
   setHours0 (sample_runtime 3600000) (Date_parse (sample_runtime 3600000) ''2024-01-18'') =
     Num (startOfDay (sample_runtime 3600000) 1705320000000 + 3 * oneDay + 0) \<and>
   getExpirationStatus (sample_runtime 3600000) 1705320000000 ''2024-01-18'' = expiring"
proof -
  let ?rt = "sample_runtime 3600000"
  have d: "daysUntil ?rt 1705320000000 ''2024-01-18'' = Num 3"
    by code_simp
  have e: "setHours0 ?rt (Date_parse ?rt ''2024-01-18'') =
             Num (startOfDay ?rt 1705320000000 + 3 * oneDay + 0)
           \<and> - oneDay \<le> 2 * 0 \<and> 2 * 0 < oneDay"
    by code_simp
  note c = getExpirationStatus_classifies [of ?rt 1705320000000 "''2024-01-18''"]
  from c d have "getExpirationStatus ?rt 1705320000000 ''2024-01-18'' = expiring \<longleftrightarrow>
      (0::int) \<le> 3 \<and> (3::int) \<le> 3"
    by blast
  moreover from c e have "getExpirationStatus ?rt 1705320000000 ''2024-01-18'' = expiring"
    by blast
  ultimately show ?thesis using d e by simp
qed

text \<open>
  One hour east of UTC the string of today's date is today.
\<close>

lemma sample_runtime_east_of_UTC:
  "daysUntil (sample_runtime 3600000) sample_now ''2024-01-15'' = Num 0"
  "getExpirationStatus (sample_runtime 3600000) sample_now ''2024-01-15'' = expiring"
  by code_simp+

text \<open>
  Claim C1.  The claim has the classifier return \<open>expiring\<close> for today and \<open>fresh\<close> for
  today + 4 days.  The code parses a date-only string as midnight UTC and then takes the
  local start of the day of that instant.  West of UTC the instant is still the evening
  before, so the string lands one day early: five hours west of UTC, at 07:00 local time
  on 15 January 2024, the code counts - 1 days to \<open>2024-01-15\<close> and returns \<open>expired\<close>,
  and counts 3 days to \<open>2024-01-19\<close> and returns \<open>expiring\<close>.
\<close>

theorem getExpirationStatus_west_of_UTC:
  "toLocaleDateString (sample_runtime (- 18000000)) (Num sample_now) = ''Jan 15, 2024'' \<and>
   daysUntil (sample_runtime (- 18000000)) sample_now ''2024-01-15'' = Num (- 1) \<and>
   getExpirationStatus (sample_runtime (- 18000000)) sample_now ''2024-01-15'' = expired \<and>
   daysUntil (sample_runtime (- 18000000)) sample_now ''2024-01-19'' = Num 3 \<and>
   getExpirationStatus (sample_runtime (- 18000000)) sample_now ''2024-01-19'' = expiring"
proof (intro conjI)
  show "toLocaleDateString (sample_runtime (- 18000000)) (Num sample_now) = ''Jan 15, 2024''"
    by code_simp
  show "daysUntil (sample_runtime (- 18000000)) sample_now ''2024-01-15'' = Num (- 1)"
    by code_simp
  show "getExpirationStatus (sample_runtime (- 18000000)) sample_now ''2024-01-15'' = expired"
    by code_simp
  show "daysUntil (sample_runtime (- 18000000)) sample_now ''2024-01-19'' = Num 3"
    by code_simp
  show "getExpirationStatus (sample_runtime (- 18000000)) sample_now ''2024-01-19'' = expiring"
    by code_simp
qed






section \<open>Properties of the store\<close>

subsection \<open>Adding to the shopping list\<close>

lemma find_append_list:
  "find P (xs @ ys) = (case find P xs of None \<Rightarrow> find P ys | Some x \<Rightarrow> Some x)"
  by (induction xs) auto

lemma map_if_id_distinct:
  assumes "distinct (map key xs)" and "i < length xs"
  shows "map (\<lambda>x. if key x = key (xs ! i) then f x else x) xs = xs[i := f (xs ! i)]"
proof (rule nth_equalityI)
  show "length (map (\<lambda>x. if key x = key (xs ! i) then f x else x) xs) = length (xs[i := f (xs ! i)])"
    by simp
next
  fix j assume "j < length (map (\<lambda>x. if key x = key (xs ! i) then f x else x) xs)"
  then have j: "j < length xs" by simp
  have "key (xs ! j) = key (xs ! i) \<longleftrightarrow> j = i"
    using assms j nth_eq_iff_index_eq [of "map key xs" j i] by auto
  then show "map (\<lambda>x. if key x = key (xs ! i) then f x else x) xs ! j = xs[i := f (xs ! i)] ! j"
    using j by (auto simp: nth_list_update)
qed

lemma addToShoppingList_existing:
  assumes "find (\<lambda>item. same_name rt (s_name item) name) (shoppingList st) = Some existing"
  shows "addToShoppingList rt newId now name category quantity unit source st =
     st\<lparr>shoppingList :=
          map (\<lambda>item. if s_id item = s_id existing
                      then item\<lparr>s_quantity := s_quantity item + quantity\<rparr> else item)
              (shoppingList st)\<rparr>"
  using assms by (simp add: addToShoppingList_def same_name_def)

lemma addToShoppingList_new:
  assumes "find (\<lambda>item. same_name rt (s_name item) name) (shoppingList st) = None"
  shows "addToShoppingList rt newId now name category quantity unit source st =
     st\<lparr>shoppingList := shoppingList st @
          [\<lparr>s_id = newId, s_name = name, s_category = category, s_quantity = quantity,
            s_unit = unit, s_checked = False, s_source = source, s_createdAt = now\<rparr>]\<rparr>"
  using assms by (simp add: addToShoppingList_def same_name_def)

lemma addToShoppingList_match:
  fixes st :: "'q::plus PantryStore"
  assumes d: "distinct (map s_id (shoppingList st))"
    and ex: "\<exists>e\<in>set (shoppingList st). same_name rt (s_name e) name"
  shows "\<exists>i<length (shoppingList st).
           same_name rt (s_name (shoppingList st ! i)) name \<and>
           (\<forall>j<i. \<not> same_name rt (s_name (shoppingList st ! j)) name) \<and>
           addToShoppingList rt newId now name category quantity unit source st =
             st\<lparr>shoppingList := (shoppingList st)
                    [i := (shoppingList st ! i)
                            \<lparr>s_quantity := s_quantity (shoppingList st ! i) + quantity\<rparr>]\<rparr>"
proof -
  let ?P = "\<lambda>item::'q ShoppingItem. same_name rt (s_name item) name"
  from ex obtain existing where f: "find ?P (shoppingList st) = Some existing"
    by (cases "find ?P (shoppingList st)") (auto simp: find_None_iff)
  then obtain i where i: "i < length (shoppingList st)" "?P (shoppingList st ! i)"
    "existing = shoppingList st ! i" "\<forall>j<i. \<not> ?P (shoppingList st ! j)"
    by (auto simp: find_Some_iff)
  have "addToShoppingList rt newId now name category quantity unit source st =
      st\<lparr>shoppingList := (shoppingList st)
             [i := (shoppingList st ! i)\<lparr>s_quantity := s_quantity (shoppingList st ! i) + quantity\<rparr>]\<rparr>"
    unfolding addToShoppingList_existing [OF f] i(3)
    using map_if_id_distinct [OF d i(1), of "\<lambda>item. item\<lparr>s_quantity := s_quantity item + quantity\<rparr>"]
    by simp
  with i show ?thesis by blast
qed

lemma addToShoppingList_no_match:
  assumes "\<forall>e\<in>set (shoppingList st). \<not> same_name rt (s_name e) name"
  shows "addToShoppingList rt newId now name category quantity unit source st =
     st\<lparr>shoppingList := shoppingList st @
          [\<lparr>s_id = newId, s_name = name, s_category = category, s_quantity = quantity,
            s_unit = unit, s_checked = False, s_source = source, s_createdAt = now\<rparr>]\<rparr>"
  using assms by (intro addToShoppingList_new) (auto simp: find_None_iff)

lemma addToShoppingList_twice:
  fixes st :: "'q::plus PantryStore" and id1 now1 name1 id2 now2 name2 :: string
    and c1 c2 :: Category and q1 q2 :: 'q and u1 u2 :: Unit and src1 src2 :: Source
  assumes none: "\<forall>e\<in>set (shoppingList st). \<not> same_name rt (s_name e) name1"
    and same: "same_name rt name1 name2"
  defines "entry \<equiv> \<lparr>s_id = id1, s_name = name1, s_category = c1, s_quantity = q1 + q2,
            s_unit = u1, s_checked = False, s_source = src1, s_createdAt = now1\<rparr>"
  defines "st2 \<equiv> addToShoppingList rt id2 now2 name2 c2 q2 u2 src2
                   (addToShoppingList rt id1 now1 name1 c1 q1 u1 src1 st)"
  shows "shoppingList st2 =
           map (\<lambda>item. if s_id item = id1 then item\<lparr>s_quantity := s_quantity item + q2\<rparr> else item)
               (shoppingList st) @ [entry]"
    and "filter (\<lambda>e. same_name rt (s_name e) name1) (shoppingList st2) = [entry]"
    and "length (shoppingList st2) = length (shoppingList st) + 1"
    and "id1 \<notin> set (map s_id (shoppingList st)) \<Longrightarrow> shoppingList st2 = shoppingList st @ [entry]"
proof -
  let ?e1 = "\<lparr>s_id = id1, s_name = name1, s_category = c1, s_quantity = q1,
            s_unit = u1, s_checked = False, s_source = src1, s_createdAt = now1\<rparr>"
  let ?st1 = "addToShoppingList rt id1 now1 name1 c1 q1 u1 src1 st"
  have st1: "?st1 = st\<lparr>shoppingList := shoppingList st @ [?e1]\<rparr>"
    using none by (rule addToShoppingList_no_match)
  have none2: "\<forall>e\<in>set (shoppingList st). \<not> same_name rt (s_name e) name2"
    using none same by (auto simp: same_name_def)
  have "find (\<lambda>item. same_name rt (s_name item) name2) (shoppingList st) = None"
    using none2 by (simp add: find_None_iff)
  then have "find (\<lambda>item. same_name rt (s_name item) name2) (shoppingList ?st1) = Some ?e1"
    using same unfolding st1 by (simp add: find_append_list same_name_def)
  from addToShoppingList_existing [OF this]
  show 1: "shoppingList st2 =
           map (\<lambda>item. if s_id item = id1 then item\<lparr>s_quantity := s_quantity item + q2\<rparr> else item)
               (shoppingList st) @ [entry]"
    unfolding st2_def entry_def st1 by simp
  have "filter (\<lambda>e. same_name rt (s_name e) name1)
          (map (\<lambda>item. if s_id item = id1 then item\<lparr>s_quantity := s_quantity item + q2\<rparr> else item)
               (shoppingList st)) = []"
    using none by (auto simp: filter_empty_conv)
  then show "filter (\<lambda>e. same_name rt (s_name e) name1) (shoppingList st2) = [entry]"
    unfolding 1 by (simp add: entry_def same_name_def)
  show "length (shoppingList st2) = length (shoppingList st) + 1"
    unfolding 1 by simp
  show "shoppingList st2 = shoppingList st @ [entry]" if "id1 \<notin> set (map s_id (shoppingList st))"
  proof -
    have "map (\<lambda>item. if s_id item = id1 then item\<lparr>s_quantity := s_quantity item + q2\<rparr> else item)
               (shoppingList st) = shoppingList st"
      using that by (intro map_idI) auto
    then show ?thesis unfolding 1 by simp
  qed
qed

lemma forEach_fold:
  "forEach f k xs s = fold (\<lambda>(i, x). f i x) (zip [k..<k + length xs] xs) s"
proof (induction xs arbitrary: k s)
  case Nil
  then show ?case by simp
next
  case (Cons x xs)
  have "[k..<k + length (x # xs)] = k # [Suc k..<Suc k + length xs]"
    by (simp add: upt_rec)
  then show ?case using Cons.IH [of "Suc k" "f k x s"] by simp
qed

lemma forEach_invariant:
  assumes "P s" and "\<And>k x s. x \<in> set xs \<Longrightarrow> P s \<Longrightarrow> P (f k x s)"
  shows "P (forEach f k xs s)"
  using assms by (induction xs arbitrary: k s) auto

lemma items_addToShoppingList [simp]:
  "items (addToShoppingList rt newId now name category quantity unit source st) = items st"
  by (simp add: addToShoppingList_def Let_def split: option.splits)

lemma length_addToShoppingList:
  "length (shoppingList (addToShoppingList rt newId now name category quantity unit source st))
     \<le> Suc (length (shoppingList st))"
  by (simp add: addToShoppingList_def Let_def split: option.splits)

lemma names_addToShoppingList:
  "s_name ` set (shoppingList (addToShoppingList rt newId now name category quantity unit source st))
     = (if \<exists>e\<in>set (shoppingList st). same_name rt (s_name e) name
        then s_name ` set (shoppingList st) else insert name (s_name ` set (shoppingList st)))"
proof (cases "find (\<lambda>item. same_name rt (s_name item) name) (shoppingList st)")
  case None
  then have "\<not> (\<exists>e\<in>set (shoppingList st). same_name rt (s_name e) name)"
    by (auto simp: find_None_iff)
  then show ?thesis
    unfolding addToShoppingList_new [OF None] by auto
next
  case (Some existing)
  then have "\<exists>e\<in>set (shoppingList st). same_name rt (s_name e) name"
    by (auto simp: find_Some_iff)
  moreover have "map s_name (map (\<lambda>item. if s_id item = s_id existing
                        then item\<lparr>s_quantity := s_quantity item + quantity\<rparr> else item)
                (shoppingList st)) = map s_name (shoppingList st)"
    by auto
  then have "s_name ` set (map (\<lambda>item. if s_id item = s_id existing
                        then item\<lparr>s_quantity := s_quantity item + quantity\<rparr> else item)
                (shoppingList st)) = s_name ` set (shoppingList st)"
    by (metis set_map)
  ultimately show ?thesis
    unfolding addToShoppingList_existing [OF Some] by simp
qed

lemma listed_addToShoppingList:
  "\<exists>e\<in>set (shoppingList (addToShoppingList rt newId now name category quantity unit source st)).
      same_name rt (s_name e) name"
proof -
  have "\<exists>n \<in> s_name ` set (shoppingList (addToShoppingList rt newId now name category quantity unit source st)).
      same_name rt n name"
    unfolding names_addToShoppingList by (auto simp: same_name_def)
  then show ?thesis by auto
qed

lemma listed_preserved:
  assumes "\<exists>e\<in>set (shoppingList st). same_name rt (s_name e) n"
  shows "\<exists>e\<in>set (shoppingList (addToShoppingList rt newId now name category quantity unit source st)).
      same_name rt (s_name e) n"
proof -
  from assms have "\<exists>m \<in> s_name ` set (shoppingList st). same_name rt m n" by auto
  then have "\<exists>m \<in> s_name ` set (shoppingList (addToShoppingList rt newId now name category quantity unit source st)).
      same_name rt m n"
    unfolding names_addToShoppingList by auto
  then show ?thesis by auto
qed

lemma forEach_add_items:
  "items (forEach (\<lambda>k item. addToShoppingList rt (fst (gen k)) (snd (gen k))
                        (nm item) (cat item) q (un item) src) k xs st) = items st"
  by (rule forEach_invariant [where P = "\<lambda>s. items s = items st"]) simp_all

lemma forEach_add_length:
  "length (shoppingList (forEach (\<lambda>k item. addToShoppingList rt (fst (gen k)) (snd (gen k))
                        (nm item) (cat item) q (un item) src) k xs st))
     \<le> length (shoppingList st) + length xs"
proof (induction xs arbitrary: k st)
  case Nil
  then show ?case by simp
next
  case (Cons x xs)
  let ?st1 = "addToShoppingList rt (fst (gen k)) (snd (gen k)) (nm x) (cat x) q (un x) src st"
  have "length (shoppingList ?st1) \<le> Suc (length (shoppingList st))"
    by (rule length_addToShoppingList)
  with Cons.IH [of "Suc k" ?st1] show ?case by simp
qed

lemma forEach_add_listed_preserved:
  assumes "\<exists>e\<in>set (shoppingList st). same_name rt (s_name e) n"
  shows "\<exists>e\<in>set (shoppingList (forEach (\<lambda>k item. addToShoppingList rt (fst (gen k)) (snd (gen k))
                        (nm item) (cat item) q (un item) src) k xs st)). same_name rt (s_name e) n"
  using assms
  by (rule forEach_invariant [where P = "\<lambda>s. \<exists>e\<in>set (shoppingList s). same_name rt (s_name e) n"])
     (rule listed_preserved)

lemma forEach_add_listed:
  assumes "x \<in> set xs"
  shows "\<exists>e\<in>set (shoppingList (forEach (\<lambda>k item. addToShoppingList rt (fst (gen k)) (snd (gen k))
                        (nm item) (cat item) q (un item) src) k xs st)). same_name rt (s_name e) (nm x)"
  using assms
proof (induction xs arbitrary: k st)
  case Nil
  then show ?case by simp
next
  case (Cons y ys)
  show ?case
  proof (cases "x = y")
    case True
    then show ?thesis
      using forEach_add_listed_preserved [OF listed_addToShoppingList] by simp
  next
    case False
    with Cons show ?thesis by simp
  qed
qed

text \<open>
  Claim C2.  On a shopping list whose ids are distinct: if some entry's name equals the
  given name case-insensitively, the first such entry has its quantity incremented by
  the given quantity, every other field of it and every other entry stay as they are, and
  no entry is created.  If no entry matches, a new entry with the given fields, not
  checked and with the newly generated id, is appended at the end.  Hence adding a name
  that is not listed and then the same name again (case-insensitively) leaves exactly one
  entry of that name, with the sum of the two quantities and the source, and every other
  field, of the first call.
\<close>

theorem addToShoppingList_merges_or_appends:
  fixes st :: "'q::plus PantryStore" and q1 q2 :: 'q
  shows
  "(distinct (map s_id (shoppingList st)) \<and>
    (\<exists>e\<in>set (shoppingList st). same_name rt (s_name e) name) \<longrightarrow>
      (\<exists>i<length (shoppingList st).
          same_name rt (s_name (shoppingList st ! i)) name \<and>
          (\<forall>j<i. \<not> same_name rt (s_name (shoppingList st ! j)) name) \<and>
          addToShoppingList rt newId now name category quantity unit source st =
            st\<lparr>shoppingList := (shoppingList st)
                   [i := (shoppingList st ! i)
                           \<lparr>s_quantity := s_quantity (shoppingList st ! i) + quantity\<rparr>]\<rparr>)) \<and>
   ((\<forall>e\<in>set (shoppingList st). \<not> same_name rt (s_name e) name) \<longrightarrow>
      addToShoppingList rt newId now name category quantity unit source st =
        st\<lparr>shoppingList := shoppingList st @
              [new_entry newId now name category quantity unit source]\<rparr>) \<and>
   ((\<forall>e\<in>set (shoppingList st). \<not> same_name rt (s_name e) name1) \<and> same_name rt name1 name2 \<longrightarrow>
      filter (\<lambda>e. same_name rt (s_name e) name1)
        (shoppingList (addToShoppingList rt id2 now2 name2 c2 q2 u2 src2
                         (addToShoppingList rt id1 now1 name1 c1 q1 u1 src1 st)))
        = [new_entry id1 now1 name1 c1 (q1 + q2) u1 src1] \<and>
      length (shoppingList (addToShoppingList rt id2 now2 name2 c2 q2 u2 src2
                         (addToShoppingList rt id1 now1 name1 c1 q1 u1 src1 st)))
        = length (shoppingList st) + 1 \<and>
      (id1 \<notin> set (map s_id (shoppingList st)) \<longrightarrow>
         shoppingList (addToShoppingList rt id2 now2 name2 c2 q2 u2 src2
                         (addToShoppingList rt id1 now1 name1 c1 q1 u1 src1 st))
           = shoppingList st @ [new_entry id1 now1 name1 c1 (q1 + q2) u1 src1]))"
proof (intro conjI impI)
  assume "distinct (map s_id (shoppingList st)) \<and>
    (\<exists>e\<in>set (shoppingList st). same_name rt (s_name e) name)"
  then show "\<exists>i<length (shoppingList st).
          same_name rt (s_name (shoppingList st ! i)) name \<and>
          (\<forall>j<i. \<not> same_name rt (s_name (shoppingList st ! j)) name) \<and>
          addToShoppingList rt newId now name category quantity unit source st =
            st\<lparr>shoppingList := (shoppingList st)
                   [i := (shoppingList st ! i)
                           \<lparr>s_quantity := s_quantity (shoppingList st ! i) + quantity\<rparr>]\<rparr>"
    using addToShoppingList_match by blast
next
  assume "\<forall>e\<in>set (shoppingList st). \<not> same_name rt (s_name e) name"
  then show "addToShoppingList rt newId now name category quantity unit source st =
        st\<lparr>shoppingList := shoppingList st @
              [new_entry newId now name category quantity unit source]\<rparr>"
    unfolding new_entry_def by (rule addToShoppingList_no_match)
next
  assume a: "(\<forall>e\<in>set (shoppingList st). \<not> same_name rt (s_name e) name1) \<and> same_name rt name1 name2"
  then have n: "\<forall>e\<in>set (shoppingList st). \<not> same_name rt (s_name e) name1"
    and s: "same_name rt name1 name2" by simp_all
  show "filter (\<lambda>e. same_name rt (s_name e) name1)
        (shoppingList (addToShoppingList rt id2 now2 name2 c2 q2 u2 src2
                         (addToShoppingList rt id1 now1 name1 c1 q1 u1 src1 st)))
        = [new_entry id1 now1 name1 c1 (q1 + q2) u1 src1]"
    unfolding new_entry_def using n s by (rule addToShoppingList_twice(2))
  show "length (shoppingList (addToShoppingList rt id2 now2 name2 c2 q2 u2 src2
                         (addToShoppingList rt id1 now1 name1 c1 q1 u1 src1 st)))
        = length (shoppingList st) + 1"
    using n s by (rule addToShoppingList_twice(3))
  show "shoppingList (addToShoppingList rt id2 now2 name2 c2 q2 u2 src2
                         (addToShoppingList rt id1 now1 name1 c1 q1 u1 src1 st))
           = shoppingList st @ [new_entry id1 now1 name1 c1 (q1 + q2) u1 src1]"
    if "id1 \<notin> set (map s_id (shoppingList st))"
    unfolding new_entry_def using n s that by (rule addToShoppingList_twice(4))
qed

text \<open>
  On the sample list, \<open>MILK\<close> merges into the entry \<open>milk\<close>, which keeps its source;
  \<open>Butter\<close>, added twice with 1 and 2, ends as one new entry of quantity 3.
\<close>

theorem addToShoppingList_merges_or_appends_witness:
  "distinct (map s_id (shoppingList sample_store)) \<and>
   (\<exists>e\<in>set (shoppingList sample_store). same_name (sample_runtime 0) (s_name e) ''MILK'') \<and>
   (\<exists>i<length (shoppingList sample_store).
      addToShoppingList (sample_runtime 0) ''n1'' ''t1'' ''MILK'' Beverages 3 bottles src_expired
          sample_store =
        sample_store\<lparr>shoppingList := (shoppingList sample_store)
           [i := (shoppingList sample_store ! i)
                   \<lparr>s_quantity := s_quantity (shoppingList sample_store ! i) + 3\<rparr>]\<rparr>) \<and>
   same_name (sample_runtime 0) ''Butter'' ''BUTTER'' \<and>
   ''n1'' \<notin> set (map s_id (shoppingList sample_store)) \<and>
   shoppingList (addToShoppingList (sample_runtime 0) ''n2'' ''t2'' ''BUTTER'' Other 2 boxes low_stock
      (addToShoppingList (sample_runtime 0) ''n1'' ''t1'' ''Butter'' Dairy 1 packages manual
         sample_store))
     = shoppingList sample_store @ [new_entry ''n1'' ''t1'' ''Butter'' Dairy (1 + 2) packages manual]"
proof -
  let ?rt = "sample_runtime 0"
  have h1: "distinct (map s_id (shoppingList sample_store)) \<and>
      (\<exists>e\<in>set (shoppingList sample_store). same_name ?rt (s_name e) ''MILK'')"
    by code_simp
  have h2: "(\<forall>e\<in>set (shoppingList sample_store). \<not> same_name ?rt (s_name e) ''Butter'')
      \<and> same_name ?rt ''Butter'' ''BUTTER''"
    by code_simp
  have h3: "''n1'' \<notin> set (map s_id (shoppingList sample_store))"
    by code_simp
  note t1 = addToShoppingList_merges_or_appends
    [of sample_store ?rt "''MILK''" "''n1''" "''t1''" Beverages 3 bottles src_expired]
  note t2 = addToShoppingList_merges_or_appends
    [of sample_store ?rt _ _ _ _ _ _ _ "''Butter''" "''BUTTER''" "''n2''" "''t2''" Other 2 boxes
        low_stock "''n1''" "''t1''" Dairy 1 packages manual]
  from t1 h1 have "\<exists>i<length (shoppingList sample_store).
      addToShoppingList ?rt ''n1'' ''t1'' ''MILK'' Beverages 3 bottles src_expired sample_store =
        sample_store\<lparr>shoppingList := (shoppingList sample_store)
           [i := (shoppingList sample_store ! i)
                   \<lparr>s_quantity := s_quantity (shoppingList sample_store ! i) + 3\<rparr>]\<rparr>"
    by blast
  moreover from t2 h2 h3 have "shoppingList (addToShoppingList ?rt ''n2'' ''t2'' ''BUTTER'' Other 2 boxes low_stock
      (addToShoppingList ?rt ''n1'' ''t1'' ''Butter'' Dairy 1 packages manual sample_store))
     = shoppingList sample_store @ [new_entry ''n1'' ''t1'' ''Butter'' Dairy (1 + 2) packages manual]"
    by blast
  ultimately show ?thesis using h1 h2 h3 by blast
qed

subsection \<open>The auto-populate actions\<close>

lemma Array_filter_zip:
  "Array_filter p k xs = map snd (filter (\<lambda>(i, x). p i x) (zip [k..<k + length xs] xs))"
proof (induction xs arbitrary: k)
  case Nil
  then show ?case by simp
next
  case (Cons x xs)
  have "[k..<k + length (x # xs)] = k # [Suc k..<Suc k + length xs]"
    by (simp add: upt_rec)
  then show ?case using Cons.IH [of "Suc k"] by simp
qed

lemma set_Array_filter:
  "x \<in> set (Array_filter p k xs) \<longleftrightarrow> (\<exists>i<length xs. xs ! i = x \<and> p (k + i) x)"
proof (induction xs arbitrary: k)
  case Nil
  then show ?case by simp
next
  case (Cons y ys)
  have "(\<exists>i<length (y # ys). (y # ys) ! i = x \<and> p (k + i) x) \<longleftrightarrow>
        (y = x \<and> p k x) \<or> (\<exists>i<length ys. ys ! i = x \<and> p (Suc k + i) x)"
    by (auto simp: less_Suc_eq_0_disj)
  then show ?case using Cons.IH [of "Suc k"] by auto
qed

lemma Array_filter_filter:
  assumes "\<forall>i<length xs. p (k + i) (xs ! i) = q (xs ! i)"
  shows "Array_filter p k xs = filter q xs"
  using assms
proof (induction xs arbitrary: k)
  case Nil
  then show ?case by simp
next
  case (Cons y ys)
  from Cons.prems have "p k y = q y" by force
  moreover from Cons.prems have "\<forall>i<length ys. p (Suc k + i) (ys ! i) = q (ys ! i)"
    by force
  ultimately show ?case using Cons.IH [of "Suc k"] by simp
qed

text \<open>The classifier looks at the clock only for the local start of the day.\<close>

lemma getExpirationStatus_same_day:
  "startOfDay rt a = startOfDay rt b \<Longrightarrow> getExpirationStatus rt a s = getExpirationStatus rt b s"
  by (simp add: getExpirationStatus_def)

lemma spec_low_stock_selection_Array_filter:
  "spec_low_stock_selection rt clock xs =
     Array_filter (\<lambda>k item. p_quantity item < 2
                     \<and> getExpirationStatus rt (clock k) (p_expirationDate item) \<noteq> expired) 0 xs"
  by (simp add: spec_low_stock_selection_def Array_filter_zip)

lemma spec_expired_selection_Array_filter:
  "spec_expired_selection rt clock xs =
     Array_filter (\<lambda>k item. getExpirationStatus rt (clock k) (p_expirationDate item) = expired) 0 xs"
  by (simp add: spec_expired_selection_def Array_filter_zip)

lemma autoAddLowStock_unfold:
  "autoAddLowStockToShoppingList rt clock gen st =
     (length (spec_low_stock_selection rt clock (items st)),
      forEach (\<lambda>k item. addToShoppingList rt (fst (gen k)) (snd (gen k))
                        (p_name item) (p_category item) 2 (p_unit item) low_stock)
              0 (spec_low_stock_selection rt clock (items st)) st)"
  by (simp add: autoAddLowStockToShoppingList_def spec_low_stock_selection_Array_filter
      isLowStock_def Let_def)

lemma autoAddExpired_unfold:
  "autoAddExpiredToShoppingList rt clock gen st =
     (length (spec_expired_selection rt clock (items st)),
      forEach (\<lambda>k item. addToShoppingList rt (fst (gen k)) (snd (gen k))
                        (p_name item) (p_category item) 1 (p_unit item) src_expired)
              0 (spec_expired_selection rt clock (items st)) st)"
  by (simp add: autoAddExpiredToShoppingList_def spec_expired_selection_Array_filter Let_def)

lemma spec_low_stock_selection_one_day:
  assumes "\<forall>k<length xs. startOfDay rt (clock k) = startOfDay rt now"
  shows "spec_low_stock_selection rt clock xs =
     filter (\<lambda>item. p_quantity item < 2
               \<and> getExpirationStatus rt now (p_expirationDate item) \<noteq> expired) xs"
proof -
  have "\<forall>k<length xs. getExpirationStatus rt (clock k) s = getExpirationStatus rt now s" for s
    using assms by (blast intro: getExpirationStatus_same_day)
  then show ?thesis
    unfolding spec_low_stock_selection_Array_filter by (intro Array_filter_filter) simp
qed

lemma spec_expired_selection_one_day:
  assumes "\<forall>k<length xs. startOfDay rt (clock k) = startOfDay rt now"
  shows "spec_expired_selection rt clock xs =
     filter (\<lambda>item. getExpirationStatus rt now (p_expirationDate item) = expired) xs"
proof -
  have "\<forall>k<length xs. getExpirationStatus rt (clock k) s = getExpirationStatus rt now s" for s
    using assms by (blast intro: getExpirationStatus_same_day)
  then show ?thesis
    unfolding spec_expired_selection_Array_filter by (intro Array_filter_filter) simp
qed

lemma set_spec_low_stock_selection:
  "item \<in> set (spec_low_stock_selection rt clock xs) \<longleftrightarrow>
     (\<exists>k<length xs. xs ! k = item \<and> p_quantity item < 2 \<and>
        getExpirationStatus rt (clock k) (p_expirationDate item) \<noteq> expired)"
  by (simp add: spec_low_stock_selection_Array_filter set_Array_filter)

lemma set_spec_expired_selection:
  "item \<in> set (spec_expired_selection rt clock xs) \<longleftrightarrow>
     (\<exists>k<length xs. xs ! k = item \<and>
        getExpirationStatus rt (clock k) (p_expirationDate item) = expired)"
  by (simp add: spec_expired_selection_Array_filter set_Array_filter)

text \<open>
  Claim C3.  \<open>autoAddLowStockToShoppingList\<close> selects the pantry items with a quantity
  below 2 that the classifier, called for the item, does not return \<open>expired\<close> for (so an
  item classified expired is never selected, whatever its quantity).  As long as the
  clock stays within one local day during the action, these are the items with a quantity
  below 2 whose classification on that day is not \<open>expired\<close>.  The action calls
  \<open>addToShoppingList\<close> for each selected item in order with the item's name, category
  and unit, quantity 2 and source low-stock, and returns the number of selected items.
  It leaves the pantry as it is, every selected name is on the list afterwards, and the
  list grows by at most the returned count; it can grow by less.
\<close>

theorem autoAddLowStock_selects_and_counts:
  fixes st :: "'q::{numeral,ord} PantryStore"
  shows
  "fst (autoAddLowStockToShoppingList rt clock gen st)
     = length (spec_low_stock_selection rt clock (items st)) \<and>
   snd (autoAddLowStockToShoppingList rt clock gen st)
     = fold (\<lambda>(k, item). addToShoppingList rt (fst (gen k)) (snd (gen k))
                (p_name item) (p_category item) 2 (p_unit item) low_stock)
            (zip [0..<length (spec_low_stock_selection rt clock (items st))]
                 (spec_low_stock_selection rt clock (items st))) st \<and>
   (\<forall>item. item \<in> set (spec_low_stock_selection rt clock (items st)) \<longleftrightarrow>
      (\<exists>k<length (items st). items st ! k = item \<and> p_quantity item < 2 \<and>
         getExpirationStatus rt (clock k) (p_expirationDate item) \<noteq> expired)) \<and>
   ((\<forall>k<length (items st). startOfDay rt (clock k) = startOfDay rt now) \<longrightarrow>
      spec_low_stock_selection rt clock (items st) =
        filter (\<lambda>item. p_quantity item < 2
                  \<and> getExpirationStatus rt now (p_expirationDate item) \<noteq> expired) (items st)) \<and>
   items (snd (autoAddLowStockToShoppingList rt clock gen st)) = items st \<and>
   (\<forall>item\<in>set (spec_low_stock_selection rt clock (items st)).
      \<exists>e\<in>set (shoppingList (snd (autoAddLowStockToShoppingList rt clock gen st))).
        same_name rt (s_name e) (p_name item)) \<and>
   length (shoppingList (snd (autoAddLowStockToShoppingList rt clock gen st)))
     \<le> length (shoppingList st) + fst (autoAddLowStockToShoppingList rt clock gen st) \<and>
   length (shoppingList (snd (autoAddLowStockToShoppingList (sample_runtime 0) sample_clock sample_gen
                                 sample_store)))
     < length (shoppingList sample_store)
         + fst (autoAddLowStockToShoppingList (sample_runtime 0) sample_clock sample_gen sample_store)"
proof (intro conjI ballI allI impI)
  show "fst (autoAddLowStockToShoppingList rt clock gen st)
     = length (spec_low_stock_selection rt clock (items st))"
    by (simp add: autoAddLowStock_unfold)
  show "snd (autoAddLowStockToShoppingList rt clock gen st)
     = fold (\<lambda>(k, item). addToShoppingList rt (fst (gen k)) (snd (gen k))
                (p_name item) (p_category item) 2 (p_unit item) low_stock)
            (zip [0..<length (spec_low_stock_selection rt clock (items st))]
                 (spec_low_stock_selection rt clock (items st))) st"
    by (simp add: autoAddLowStock_unfold forEach_fold)
  show "item \<in> set (spec_low_stock_selection rt clock (items st)) \<longleftrightarrow>
      (\<exists>k<length (items st). items st ! k = item \<and> p_quantity item < 2 \<and>
         getExpirationStatus rt (clock k) (p_expirationDate item) \<noteq> expired)" for item
    by (rule set_spec_low_stock_selection)
  show "spec_low_stock_selection rt clock (items st) =
        filter (\<lambda>item. p_quantity item < 2
                  \<and> getExpirationStatus rt now (p_expirationDate item) \<noteq> expired) (items st)"
    if "\<forall>k<length (items st). startOfDay rt (clock k) = startOfDay rt now"
    using that by (rule spec_low_stock_selection_one_day)
  show "items (snd (autoAddLowStockToShoppingList rt clock gen st)) = items st"
    by (simp add: autoAddLowStock_unfold forEach_add_items)
  show "\<exists>e\<in>set (shoppingList (snd (autoAddLowStockToShoppingList rt clock gen st))).
        same_name rt (s_name e) (p_name item)"
    if "item \<in> set (spec_low_stock_selection rt clock (items st))" for item
    using forEach_add_listed [OF that, of rt gen p_name p_category 2 p_unit low_stock 0 st]
    by (simp add: autoAddLowStock_unfold)
  show "length (shoppingList (snd (autoAddLowStockToShoppingList rt clock gen st)))
     \<le> length (shoppingList st) + fst (autoAddLowStockToShoppingList rt clock gen st)"
    by (simp add: autoAddLowStock_unfold forEach_add_length)
  show "length (shoppingList (snd (autoAddLowStockToShoppingList (sample_runtime 0) sample_clock sample_gen
                                 sample_store)))
     < length (shoppingList sample_store)
         + fst (autoAddLowStockToShoppingList (sample_runtime 0) sample_clock sample_gen sample_store)"
    by code_simp
qed

text \<open>
  On the sample store, with a clock that stays within 15 January, the action selects the
  two bottles of milk and not the bread, which is low but expired; it returns 2, and both
  calls merge into the one entry \<open>milk\<close>.
\<close>

theorem autoAddLowStock_selects_and_counts_witness:
  "list_all (\<lambda>k. startOfDay (sample_runtime 0) (sample_clock k) = startOfDay (sample_runtime 0) sample_now)
     [0..<length (items sample_store)] \<and>
   map p_id (filter (\<lambda>item. p_quantity item < 2
       \<and> getExpirationStatus (sample_runtime 0) sample_now (p_expirationDate item) \<noteq> expired)
       (items sample_store)) = [''p1'', ''p4''] \<and>
   map p_id (spec_low_stock_selection (sample_runtime 0) sample_clock (items sample_store))
     = [''p1'', ''p4''] \<and>
   fst (autoAddLowStockToShoppingList (sample_runtime 0) sample_clock sample_gen sample_store) = 2 \<and>
   items (snd (autoAddLowStockToShoppingList (sample_runtime 0) sample_clock sample_gen sample_store))
     = items sample_store \<and>
   map (\<lambda>e. (s_name e, s_quantity e, s_source e))
     (shoppingList (snd (autoAddLowStockToShoppingList (sample_runtime 0) sample_clock sample_gen
                           sample_store)))
     = [(''Eggs'', 12, manual), (''milk'', 5, manual), (''Salt'', 1, manual)]"
proof -
  let ?rt = "sample_runtime 0"
  have day: "list_all (\<lambda>k. startOfDay ?rt (sample_clock k) = startOfDay ?rt sample_now)
     [0..<length (items sample_store)]"
    by code_simp
  then have day': "\<forall>k<length (items sample_store).
      startOfDay ?rt (sample_clock k) = startOfDay ?rt sample_now"
    by (simp add: list_all_iff)
  have f: "map p_id (filter (\<lambda>item. p_quantity item < 2
       \<and> getExpirationStatus ?rt sample_now (p_expirationDate item) \<noteq> expired)
       (items sample_store)) = [''p1'', ''p4'']"
    by code_simp
  note t = autoAddLowStock_selects_and_counts
    [where rt = ?rt and clock = sample_clock and gen = sample_gen and st = sample_store
       and now = sample_now]
  from t day' have sel: "spec_low_stock_selection ?rt sample_clock (items sample_store) =
        filter (\<lambda>item. p_quantity item < 2
                  \<and> getExpirationStatus ?rt sample_now (p_expirationDate item) \<noteq> expired)
               (items sample_store)"
    by blast
  with f have s: "map p_id (spec_low_stock_selection ?rt sample_clock (items sample_store))
     = [''p1'', ''p4'']"
    by simp
  then have l: "length (spec_low_stock_selection ?rt sample_clock (items sample_store)) = 2"
    using length_map [of p_id "spec_low_stock_selection ?rt sample_clock (items sample_store)"]
    by simp
  from t have "fst (autoAddLowStockToShoppingList ?rt sample_clock sample_gen sample_store)
      = length (spec_low_stock_selection ?rt sample_clock (items sample_store))"
    by blast
  with l have "fst (autoAddLowStockToShoppingList ?rt sample_clock sample_gen sample_store) = 2"
    by simp
  moreover from t
  have "items (snd (autoAddLowStockToShoppingList ?rt sample_clock sample_gen sample_store))
     = items sample_store"
    by blast
  moreover have "map (\<lambda>e. (s_name e, s_quantity e, s_source e))
     (shoppingList (snd (autoAddLowStockToShoppingList ?rt sample_clock sample_gen sample_store)))
     = [(''Eggs'', 12, manual), (''milk'', 5, manual), (''Salt'', 1, manual)]"
    by code_simp
  ultimately show ?thesis using day f s by simp
qed

text \<open>
  When midnight passes between the two calls of the classifier, the first packet of yeast
  is still expiring and is selected, the second, of the same date, is expired and is not.
\<close>

lemma autoAddLowStock_across_midnight:
  "map p_id (spec_low_stock_selection (sample_runtime 0) midnight_clock twin_items) = [''p5'']"
  "fst (autoAddLowStockToShoppingList (sample_runtime 0) midnight_clock sample_gen
          \<lparr>items = twin_items, shoppingList = []\<rparr>) = 1"
  by code_simp+

text \<open>
  Claim C4.  \<open>autoAddExpiredToShoppingList\<close> selects the pantry items that the
  classifier, called for the item, returns \<open>expired\<close> for; as long as the clock stays
  within one local day during the action, these are the items classified expired on that
  day.  The action calls \<open>addToShoppingList\<close> for each selected item in order with the
  item's name, category and unit, quantity 1 and source expired, and returns the number of
  selected items.  With a single pantry item that is expired and an empty shopping list
  it returns 1, and the list is then the one new entry for that item, with quantity 1 and
  source expired.
\<close>

theorem autoAddExpired_selects_and_counts:
  fixes st :: "'q::{numeral,ord} PantryStore"
  shows
  "fst (autoAddExpiredToShoppingList rt clock gen st)
     = length (spec_expired_selection rt clock (items st)) \<and>
   snd (autoAddExpiredToShoppingList rt clock gen st)
     = fold (\<lambda>(k, item). addToShoppingList rt (fst (gen k)) (snd (gen k))
                (p_name item) (p_category item) 1 (p_unit item) src_expired)
            (zip [0..<length (spec_expired_selection rt clock (items st))]
                 (spec_expired_selection rt clock (items st))) st \<and>
   (\<forall>item. item \<in> set (spec_expired_selection rt clock (items st)) \<longleftrightarrow>
      (\<exists>k<length (items st). items st ! k = item \<and>
         getExpirationStatus rt (clock k) (p_expirationDate item) = expired)) \<and>
   ((\<forall>k<length (items st). startOfDay rt (clock k) = startOfDay rt now) \<longrightarrow>
      spec_expired_selection rt clock (items st) =
        filter (\<lambda>item. getExpirationStatus rt now (p_expirationDate item) = expired) (items st)) \<and>
   items (snd (autoAddExpiredToShoppingList rt clock gen st)) = items st \<and>
   (\<forall>item\<in>set (spec_expired_selection rt clock (items st)).
      \<exists>e\<in>set (shoppingList (snd (autoAddExpiredToShoppingList rt clock gen st))).
        same_name rt (s_name e) (p_name item)) \<and>
   (\<forall>item. items st = [item] \<and> shoppingList st = [] \<and>
        getExpirationStatus rt (clock 0) (p_expirationDate item) = expired \<longrightarrow>
      autoAddExpiredToShoppingList rt clock gen st =
        (1, st\<lparr>shoppingList :=
                 [new_entry (fst (gen 0)) (snd (gen 0)) (p_name item) (p_category item) 1
                    (p_unit item) src_expired]\<rparr>))"
proof (intro conjI ballI allI impI)
  show "fst (autoAddExpiredToShoppingList rt clock gen st)
     = length (spec_expired_selection rt clock (items st))"
    by (simp add: autoAddExpired_unfold)
  show "snd (autoAddExpiredToShoppingList rt clock gen st)
     = fold (\<lambda>(k, item). addToShoppingList rt (fst (gen k)) (snd (gen k))
                (p_name item) (p_category item) 1 (p_unit item) src_expired)
            (zip [0..<length (spec_expired_selection rt clock (items st))]
                 (spec_expired_selection rt clock (items st))) st"
    by (simp add: autoAddExpired_unfold forEach_fold)
  show "item \<in> set (spec_expired_selection rt clock (items st)) \<longleftrightarrow>
      (\<exists>k<length (items st). items st ! k = item \<and>
         getExpirationStatus rt (clock k) (p_expirationDate item) = expired)" for item
    by (rule set_spec_expired_selection)
  show "spec_expired_selection rt clock (items st) =
        filter (\<lambda>item. getExpirationStatus rt now (p_expirationDate item) = expired) (items st)"
    if "\<forall>k<length (items st). startOfDay rt (clock k) = startOfDay rt now"
    using that by (rule spec_expired_selection_one_day)
  show "items (snd (autoAddExpiredToShoppingList rt clock gen st)) = items st"
    by (simp add: autoAddExpired_unfold forEach_add_items)
  show "\<exists>e\<in>set (shoppingList (snd (autoAddExpiredToShoppingList rt clock gen st))).
        same_name rt (s_name e) (p_name item)"
    if "item \<in> set (spec_expired_selection rt clock (items st))" for item
    using forEach_add_listed [OF that, of rt gen p_name p_category 1 p_unit src_expired 0 st]
    by (simp add: autoAddExpired_unfold)
  show "autoAddExpiredToShoppingList rt clock gen st =
        (1, st\<lparr>shoppingList :=
                 [new_entry (fst (gen 0)) (snd (gen 0)) (p_name item) (p_category item) 1
                    (p_unit item) src_expired]\<rparr>)"
    if "items st = [item] \<and> shoppingList st = [] \<and>
        getExpirationStatus rt (clock 0) (p_expirationDate item) = expired" for item
    using that
    by (simp add: autoAddExpired_unfold spec_expired_selection_Array_filter addToShoppingList_def
        new_entry_def)
qed

text \<open>
  With the bread, which expired yesterday, as the only pantry item and nothing on the
  list, the action returns 1 and lists the bread with quantity 1 and source expired.  On
  the whole sample store, with a clock that stays within 15 January, the bread is the one
  item selected.
\<close>

theorem autoAddExpired_selects_and_counts_witness:
  "getExpirationStatus (sample_runtime 0) (sample_clock 0) (p_expirationDate (sample_items ! 1))
     = expired \<and>
   daysUntil (sample_runtime 0) (sample_clock 0) (p_expirationDate (sample_items ! 1)) = Num (- 1) \<and>
   autoAddExpiredToShoppingList (sample_runtime 0) sample_clock sample_gen
       \<lparr>items = [sample_items ! 1], shoppingList = []\<rparr>
     = (1, \<lparr>items = [sample_items ! 1],
            shoppingList = [new_entry ''1705320000000-0'' ''2024-01-15T12:00:00.000Z''
                              ''Bread'' Bakery 1 pieces src_expired]\<rparr>) \<and>
   list_all (\<lambda>k. startOfDay (sample_runtime 0) (sample_clock k) = startOfDay (sample_runtime 0) sample_now)
     [0..<length (items sample_store)] \<and>
   map p_id (spec_expired_selection (sample_runtime 0) sample_clock (items sample_store)) = [''p2''] \<and>
   fst (autoAddExpiredToShoppingList (sample_runtime 0) sample_clock sample_gen sample_store) = 1"
proof -
  let ?rt = "sample_runtime 0"
  let ?st = "\<lparr>items = [sample_items ! 1], shoppingList = []\<rparr> :: int PantryStore"
  have h: "items ?st = [sample_items ! 1] \<and> shoppingList ?st = [] \<and>
      getExpirationStatus ?rt (sample_clock 0) (p_expirationDate (sample_items ! 1)) = expired"
    by code_simp
  have d: "daysUntil ?rt (sample_clock 0) (p_expirationDate (sample_items ! 1)) = Num (- 1)"
    by code_simp
  have v: "fst (sample_gen 0) = ''1705320000000-0'' \<and> snd (sample_gen 0) = ''2024-01-15T12:00:00.000Z''
      \<and> p_name (sample_items ! 1) = ''Bread'' \<and> p_category (sample_items ! 1) = Bakery
      \<and> p_unit (sample_items ! 1) = pieces"
    by code_simp
  have day: "list_all (\<lambda>k. startOfDay ?rt (sample_clock k) = startOfDay ?rt sample_now)
     [0..<length (items sample_store)]"
    by code_simp
  then have day': "\<forall>k<length (items sample_store).
      startOfDay ?rt (sample_clock k) = startOfDay ?rt sample_now"
    by (simp add: list_all_iff)
  have f: "map p_id (filter (\<lambda>item. getExpirationStatus ?rt sample_now (p_expirationDate item) = expired)
       (items sample_store)) = [''p2'']"
    by code_simp
  from autoAddExpired_selects_and_counts
    [where rt = ?rt and clock = sample_clock and gen = sample_gen and st = ?st] h
  have one: "autoAddExpiredToShoppingList ?rt sample_clock sample_gen ?st =
        (1, ?st\<lparr>shoppingList :=
                 [new_entry (fst (sample_gen 0)) (snd (sample_gen 0)) (p_name (sample_items ! 1))
                    (p_category (sample_items ! 1)) 1 (p_unit (sample_items ! 1)) src_expired]\<rparr>)"
    by blast
  note t = autoAddExpired_selects_and_counts
    [where rt = ?rt and clock = sample_clock and gen = sample_gen and st = sample_store
       and now = sample_now]
  from t day' have "spec_expired_selection ?rt sample_clock (items sample_store) =
        filter (\<lambda>item. getExpirationStatus ?rt sample_now (p_expirationDate item) = expired)
               (items sample_store)"
    by blast
  with f have s: "map p_id (spec_expired_selection ?rt sample_clock (items sample_store)) = [''p2'']"
    by simp
  then have l: "length (spec_expired_selection ?rt sample_clock (items sample_store)) = 1"
    using length_map [of p_id "spec_expired_selection ?rt sample_clock (items sample_store)"]
    by simp
  from t have "fst (autoAddExpiredToShoppingList ?rt sample_clock sample_gen sample_store)
      = length (spec_expired_selection ?rt sample_clock (items sample_store))"
    by blast
  with l have "fst (autoAddExpiredToShoppingList ?rt sample_clock sample_gen sample_store) = 1"
    by simp
  with one show ?thesis using h d v day s by simp
qed

text \<open>
  When midnight passes between the two calls of the classifier, only the second packet of
  yeast is classified expired, and the action returns 1.
\<close>

lemma autoAddExpired_across_midnight:
  "map p_id (spec_expired_selection (sample_runtime 0) midnight_clock twin_items) = [''p6'']"
  "fst (autoAddExpiredToShoppingList (sample_runtime 0) midnight_clock sample_gen
          \<lparr>items = twin_items, shoppingList = []\<rparr>) = 1"
  by code_simp+

subsection \<open>Updating and removing\<close>

lemma spread_data_fields [simp]:
  "p_id (spread_data item data) = p_id item"
  "p_createdAt (spread_data item data) = p_createdAt item"
  "p_updatedAt (spread_data item data) = p_updatedAt item"
  "p_name (spread_data item data) = (case u_name data of None \<Rightarrow> p_name item | Some v \<Rightarrow> v)"
  "p_category (spread_data item data) = (case u_category data of None \<Rightarrow> p_category item | Some v \<Rightarrow> v)"
  "p_quantity (spread_data item data) = (case u_quantity data of None \<Rightarrow> p_quantity item | Some v \<Rightarrow> v)"
  "p_unit (spread_data item data) = (case u_unit data of None \<Rightarrow> p_unit item | Some v \<Rightarrow> v)"
  "p_expirationDate (spread_data item data) =
     (case u_expirationDate data of None \<Rightarrow> p_expirationDate item | Some v \<Rightarrow> v)"
  by (simp_all add: spread_data_def)

text \<open>
  Claim C6.  \<open>updateItem\<close> changes nothing but the pantry items with the given id: on
  such an item the supplied fields are replaced, \<open>updatedAt\<close> becomes the current
  timestamp, and the id, \<open>createdAt\<close> and the fields not supplied stay; every other item
  stays as it is and in its place.  When no item has the id the state is unchanged.
\<close>

theorem updateItem_replaces:
  "shoppingList (updateItem now ident data st) = shoppingList st \<and>
   length (items (updateItem now ident data st)) = length (items st) \<and>
   (\<forall>i<length (items st).
      (p_id (items st ! i) \<noteq> ident \<longrightarrow> items (updateItem now ident data st) ! i = items st ! i) \<and>
      (p_id (items st ! i) = ident \<longrightarrow>
         p_id (items (updateItem now ident data st) ! i) = ident \<and>
         p_createdAt (items (updateItem now ident data st) ! i) = p_createdAt (items st ! i) \<and>
         p_updatedAt (items (updateItem now ident data st) ! i) = Some now \<and>
         p_name (items (updateItem now ident data st) ! i) =
           (case u_name data of None \<Rightarrow> p_name (items st ! i) | Some v \<Rightarrow> v) \<and>
         p_category (items (updateItem now ident data st) ! i) =
           (case u_category data of None \<Rightarrow> p_category (items st ! i) | Some v \<Rightarrow> v) \<and>
         p_quantity (items (updateItem now ident data st) ! i) =
           (case u_quantity data of None \<Rightarrow> p_quantity (items st ! i) | Some v \<Rightarrow> v) \<and>
         p_unit (items (updateItem now ident data st) ! i) =
           (case u_unit data of None \<Rightarrow> p_unit (items st ! i) | Some v \<Rightarrow> v) \<and>
         p_expirationDate (items (updateItem now ident data st) ! i) =
           (case u_expirationDate data of None \<Rightarrow> p_expirationDate (items st ! i) | Some v \<Rightarrow> v))) \<and>
   ((\<forall>item\<in>set (items st). p_id item \<noteq> ident) \<longrightarrow> updateItem now ident data st = st)"
proof (intro conjI allI impI)
  show "updateItem now ident data st = st" if "\<forall>item\<in>set (items st). p_id item \<noteq> ident"
  proof -
    have "map (\<lambda>item. if p_id item = ident
                   then (spread_data item data)\<lparr>p_updatedAt := Some now\<rparr> else item) (items st)
          = items st"
      using that by (intro map_idI) auto
    then show ?thesis by (simp add: updateItem_def)
  qed
qed (simp_all add: updateItem_def)

text \<open>
  Renaming the rice of the sample store keeps its other fields; an unknown id changes
  nothing.
\<close>

theorem updateItem_replaces_witness:
  "p_id (items sample_store ! 2) = ''p3'' \<and>
   p_name (items (updateItem ''2024-01-15T12:00:00.000Z'' ''p3''
        \<lparr>u_name = Some ''Brown rice'', u_category = None, u_quantity = Some 4, u_unit = None,
         u_expirationDate = None\<rparr> sample_store) ! 2) = ''Brown rice'' \<and>
   p_quantity (items (updateItem ''2024-01-15T12:00:00.000Z'' ''p3''
        \<lparr>u_name = Some ''Brown rice'', u_category = None, u_quantity = Some 4, u_unit = None,
         u_expirationDate = None\<rparr> sample_store) ! 2) = 4 \<and>
   p_unit (items (updateItem ''2024-01-15T12:00:00.000Z'' ''p3''
        \<lparr>u_name = Some ''Brown rice'', u_category = None, u_quantity = Some 4, u_unit = None,
         u_expirationDate = None\<rparr> sample_store) ! 2) = kg \<and>
   p_updatedAt (items (updateItem ''2024-01-15T12:00:00.000Z'' ''p3''
        \<lparr>u_name = Some ''Brown rice'', u_category = None, u_quantity = Some 4, u_unit = None,
         u_expirationDate = None\<rparr> sample_store) ! 2) = Some ''2024-01-15T12:00:00.000Z'' \<and>
   items (updateItem ''2024-01-15T12:00:00.000Z'' ''p3''
        \<lparr>u_name = Some ''Brown rice'', u_category = None, u_quantity = Some 4, u_unit = None,
         u_expirationDate = None\<rparr> sample_store) ! 0 = items sample_store ! 0 \<and>
   updateItem ''2024-01-15T12:00:00.000Z'' ''p9''
        \<lparr>u_name = Some ''Brown rice'', u_category = None, u_quantity = Some 4, u_unit = None,
         u_expirationDate = None\<rparr> sample_store = sample_store"
proof -
  let ?data = "\<lparr>u_name = Some ''Brown rice'', u_category = None, u_quantity = Some (4::int),
         u_unit = None, u_expirationDate = None\<rparr>"
  have h: "2 < length (items sample_store) \<and> p_id (items sample_store ! 2) = ''p3'' \<and>
      0 < length (items sample_store) \<and> p_id (items sample_store ! 0) \<noteq> ''p3'' \<and>
      p_unit (items sample_store ! 2) = kg \<and>
      (\<forall>item\<in>set (items sample_store). p_id item \<noteq> ''p9'')"
    by code_simp
  note t = updateItem_replaces [of "''2024-01-15T12:00:00.000Z''" _ ?data sample_store]
  from t [of "''p3''"] h
  have "p_name (items (updateItem ''2024-01-15T12:00:00.000Z'' ''p3'' ?data sample_store) ! 2)
          = (case u_name ?data of None \<Rightarrow> p_name (items sample_store ! 2) | Some v \<Rightarrow> v)"
    and "p_quantity (items (updateItem ''2024-01-15T12:00:00.000Z'' ''p3'' ?data sample_store) ! 2)
          = (case u_quantity ?data of None \<Rightarrow> p_quantity (items sample_store ! 2) | Some v \<Rightarrow> v)"
    and "p_unit (items (updateItem ''2024-01-15T12:00:00.000Z'' ''p3'' ?data sample_store) ! 2)
          = (case u_unit ?data of None \<Rightarrow> p_unit (items sample_store ! 2) | Some v \<Rightarrow> v)"
    and "p_updatedAt (items (updateItem ''2024-01-15T12:00:00.000Z'' ''p3'' ?data sample_store) ! 2)
          = Some ''2024-01-15T12:00:00.000Z''"
    and "items (updateItem ''2024-01-15T12:00:00.000Z'' ''p3'' ?data sample_store) ! 0
          = items sample_store ! 0"
    by blast+
  moreover from t [of "''p9''"] h
  have "updateItem ''2024-01-15T12:00:00.000Z'' ''p9'' ?data sample_store = sample_store"
    by blast
  ultimately show ?thesis using h by simp
qed

lemma filter_all: "(\<forall>x\<in>set xs. P x) \<Longrightarrow> filter P xs = xs"
  by (induction xs) auto

text \<open>
  Claim C7.  For an id that no element of the collection has, \<open>removeItem\<close>,
  \<open>removeShoppingItem\<close> and \<open>toggleShoppingItem\<close> return the state unchanged; the model
  has no error result, as the code has none.
\<close>

theorem unknown_id_noop:
  "((\<forall>item\<in>set (items st). p_id item \<noteq> ident) \<longrightarrow> removeItem ident st = st) \<and>
   ((\<forall>e\<in>set (shoppingList st). s_id e \<noteq> ident) \<longrightarrow> removeShoppingItem ident st = st) \<and>
   ((\<forall>e\<in>set (shoppingList st). s_id e \<noteq> ident) \<longrightarrow> toggleShoppingItem ident st = st)"
proof (intro conjI impI)
  show "removeItem ident st = st" if "\<forall>item\<in>set (items st). p_id item \<noteq> ident"
    using that by (simp add: removeItem_def filter_all)
  show "removeShoppingItem ident st = st" if "\<forall>e\<in>set (shoppingList st). s_id e \<noteq> ident"
    using that by (simp add: removeShoppingItem_def filter_all)
  show "toggleShoppingItem ident st = st" if "\<forall>e\<in>set (shoppingList st). s_id e \<noteq> ident"
  proof -
    have "map (\<lambda>item. if s_id item = ident then item\<lparr>s_checked := \<not> s_checked item\<rparr> else item)
            (shoppingList st) = shoppingList st"
      using that by (intro map_idI) auto
    then show ?thesis by (simp add: toggleShoppingItem_def)
  qed
qed

theorem unknown_id_noop_witness:
  "list_all (\<lambda>item. p_id item \<noteq> ''nonexistent-id'') (items sample_store) \<and>
   list_all (\<lambda>e. s_id e \<noteq> ''nonexistent-id'') (shoppingList sample_store) \<and>
   removeItem ''nonexistent-id'' sample_store = sample_store \<and>
   removeShoppingItem ''nonexistent-id'' sample_store = sample_store \<and>
   toggleShoppingItem ''nonexistent-id'' sample_store = sample_store"
proof -
  have h: "(\<forall>item\<in>set (items sample_store). p_id item \<noteq> ''nonexistent-id'') \<and>
      (\<forall>e\<in>set (shoppingList sample_store). s_id e \<noteq> ''nonexistent-id'')"
    by code_simp
  with unknown_id_noop [of sample_store "''nonexistent-id''"]
  have "removeItem ''nonexistent-id'' sample_store = sample_store \<and>
      removeShoppingItem ''nonexistent-id'' sample_store = sample_store \<and>
      toggleShoppingItem ''nonexistent-id'' sample_store = sample_store"
    by blast
  with h show ?thesis by (simp add: list_all_iff)
qed

subsection \<open>Clearing checked entries\<close>

lemma shoppingList_toggle:
  "shoppingList (toggleShoppingItem ident st) =
     map (\<lambda>item. if s_id item = ident then item\<lparr>s_checked := \<not> s_checked item\<rparr> else item)
         (shoppingList st)"
  by (simp add: toggleShoppingItem_def)

lemma items_toggle [simp]: "items (toggleShoppingItem ident st) = items st"
  by (simp add: toggleShoppingItem_def)

lemma fold_toggle_items [simp]: "items (fold toggleShoppingItem ids st) = items st"
  by (induction ids arbitrary: st) auto

lemma fold_toggle_shoppingList:
  "distinct ids \<Longrightarrow>
   shoppingList (fold toggleShoppingItem ids st) =
     map (\<lambda>item. if s_id item \<in> set ids then item\<lparr>s_checked := \<not> s_checked item\<rparr> else item)
         (shoppingList st)"
proof (induction ids arbitrary: st)
  case Nil
  then show ?case by simp
next
  case (Cons a ids)
  then show ?case
    by (auto simp: shoppingList_toggle)
qed

text \<open>
  Claim C8.  \<open>clearCheckedItems\<close> keeps exactly the entries that are not checked, each as
  it is and in the original order, and leaves the pantry alone.  In particular, on a list
  with nothing checked, toggling the entries of some ids and then clearing removes exactly
  the toggled entries.
\<close>

theorem clearCheckedItems_removes_checked:
  "clearCheckedItems st = st\<lparr>shoppingList := filter (\<lambda>e. \<not> s_checked e) (shoppingList st)\<rparr> \<and>
   items (clearCheckedItems st) = items st \<and>
   (\<forall>e. e \<in> set (shoppingList (clearCheckedItems st)) \<longleftrightarrow> e \<in> set (shoppingList st) \<and> \<not> s_checked e) \<and>
   (distinct ids \<and> (\<forall>e\<in>set (shoppingList st). \<not> s_checked e) \<longrightarrow>
      shoppingList (clearCheckedItems (fold toggleShoppingItem ids st)) =
        filter (\<lambda>e. s_id e \<notin> set ids) (shoppingList st))"
proof (intro conjI impI allI)
  show "shoppingList (clearCheckedItems (fold toggleShoppingItem ids st)) =
        filter (\<lambda>e. s_id e \<notin> set ids) (shoppingList st)"
    if "distinct ids \<and> (\<forall>e\<in>set (shoppingList st). \<not> s_checked e)"
  proof -
    have "filter (\<lambda>e. \<not> s_checked e)
            (map (\<lambda>item. if s_id item \<in> set ids then item\<lparr>s_checked := \<not> s_checked item\<rparr> else item) xs)
          = filter (\<lambda>e. s_id e \<notin> set ids) xs" if "\<forall>e\<in>set xs. \<not> s_checked e" for xs :: "'a ShoppingItem list"
      using that by (induction xs) auto
    then show ?thesis using that
      by (simp add: clearCheckedItems_def fold_toggle_shoppingList)
  qed
qed (auto simp: clearCheckedItems_def)

text \<open>Toggling the eggs and the salt of the sample list and clearing leaves the milk.\<close>

theorem clearCheckedItems_removes_checked_witness:
  "distinct [''s1'', ''s3''] \<and> list_all (\<lambda>e. \<not> s_checked e) (shoppingList sample_store) \<and>
   shoppingList (clearCheckedItems (fold toggleShoppingItem [''s1'', ''s3''] sample_store))
     = [shoppingList sample_store ! 1]"
proof -
  have h: "distinct [''s1'', ''s3''] \<and> (\<forall>e\<in>set (shoppingList sample_store). \<not> s_checked e)"
    by code_simp
  have f: "filter (\<lambda>e. s_id e \<notin> set [''s1'', ''s3'']) (shoppingList sample_store)
      = [shoppingList sample_store ! 1]"
    by code_simp
  from clearCheckedItems_removes_checked [where st = sample_store and ids = "[''s1'', ''s3'']"] h
  have "shoppingList (clearCheckedItems (fold toggleShoppingItem [''s1'', ''s3''] sample_store)) =
        filter (\<lambda>e. s_id e \<notin> set [''s1'', ''s3'']) (shoppingList sample_store)"
    by blast
  with h f show ?thesis by (simp add: list_all_iff)
qed

subsection \<open>The two collections are changed apart\<close>

text \<open>
  Claim C10.  The pantry actions \<open>addItem\<close>, \<open>updateItem\<close> and \<open>removeItem\<close> leave the
  shopping list as it is; the shopping-list actions \<open>addToShoppingList\<close>,
  \<open>toggleShoppingItem\<close>, \<open>removeShoppingItem\<close>, \<open>clearCheckedItems\<close> and
  \<open>clearShoppingList\<close> and the two auto-populate actions leave the pantry items as they
  are.
\<close>

theorem collections_mutated_in_isolation:
  fixes st :: "'q::{numeral,ord} PantryStore"
  shows
  "shoppingList (addItem newId now_iso data st) = shoppingList st \<and>
   shoppingList (updateItem now_iso ident partial st) = shoppingList st \<and>
   shoppingList (removeItem ident st) = shoppingList st \<and>
   items (addToShoppingList rt newId now_iso name category quantity unit source st) = items st \<and>
   items (toggleShoppingItem ident st) = items st \<and>
   items (removeShoppingItem ident st) = items st \<and>
   items (clearCheckedItems st) = items st \<and>
   items (clearShoppingList st) = items st \<and>
   items (snd (autoAddLowStockToShoppingList rt clock gen st)) = items st \<and>
   items (snd (autoAddExpiredToShoppingList rt clock gen st)) = items st"
proof (intro conjI)
  show "items (snd (autoAddLowStockToShoppingList rt clock gen st)) = items st"
    by (simp add: autoAddLowStock_unfold forEach_add_items)
  show "items (snd (autoAddExpiredToShoppingList rt clock gen st)) = items st"
    by (simp add: autoAddExpired_unfold forEach_add_items)
qed (simp_all add: addItem_def updateItem_def removeItem_def removeShoppingItem_def
       clearCheckedItems_def clearShoppingList_def)

text \<open>On the sample store: removing the bread, and the expired path of auto-populate.\<close>

theorem collections_mutated_in_isolation_witness:
  "shoppingList (removeItem ''p2'' sample_store) = sample_list \<and>
   length (items (removeItem ''p2'' sample_store)) = 3 \<and>
   items (snd (autoAddExpiredToShoppingList (sample_runtime 0) sample_clock sample_gen sample_store))
     = sample_items \<and>
   length (shoppingList (snd (autoAddExpiredToShoppingList (sample_runtime 0) sample_clock sample_gen
                                 sample_store))) = 4"
proof -
  note t = collections_mutated_in_isolation [where st = sample_store and ident = "''p2''"
      and rt = "sample_runtime 0" and clock = sample_clock and gen = sample_gen]
  have s: "shoppingList sample_store = sample_list \<and> items sample_store = sample_items"
    by (simp add: sample_store_def)
  from t have "shoppingList (removeItem ''p2'' sample_store) = shoppingList sample_store"
    by blast
  moreover from t
  have "items (snd (autoAddExpiredToShoppingList (sample_runtime 0) sample_clock sample_gen sample_store))
     = items sample_store"
    by blast
  moreover have "length (items (removeItem ''p2'' sample_store)) = 3"
    by code_simp
  moreover have "length (shoppingList (snd (autoAddExpiredToShoppingList (sample_runtime 0) sample_clock
                        sample_gen sample_store))) = 4"
    by code_simp
  ultimately show ?thesis using s by simp
qed

section \<open>Sorting by expiration date\<close>

lemma compareDates_valid:
  assumes "valid_date rt (ex x)" and "valid_date rt (ex y)"
  shows "num_gt (compareDates rt ex x y) (Num 0) \<longleftrightarrow> \<not> parsed rt (ex x) \<le> parsed rt (ex y)"
  using assms
  by (auto simp: compareDates_def valid_date_def parsed_def Let_def split: number.splits)

lemma insert_sorted_insort_key:
  assumes "valid_date rt (ex x)" and "\<forall>y\<in>set ys. valid_date rt (ex y)"
  shows "insert_sorted (compareDates rt ex) x ys = insort_key (\<lambda>a. parsed rt (ex a)) x ys"
  using assms by (induction ys) (simp_all add: compareDates_valid)

lemma stable_sort_sort_key:
  assumes "\<forall>x\<in>set xs. valid_date rt (ex x)"
  shows "stable_sort (compareDates rt ex) xs = sort_key (\<lambda>a. parsed rt (ex a)) xs"
  using assms
proof (induction xs)
  case Nil
  then show ?case by (simp add: stable_sort_def)
next
  case (Cons x xs)
  then have "stable_sort (compareDates rt ex) xs = sort_key (\<lambda>a. parsed rt (ex a)) xs"
    by simp
  moreover have "\<forall>y\<in>set (sort_key (\<lambda>a. parsed rt (ex a)) xs). valid_date rt (ex y)"
    using Cons.prems by simp
  ultimately show ?case
    using Cons.prems insert_sorted_insort_key [of rt ex x "sort_key (\<lambda>a. parsed rt (ex a)) xs"]
    by (simp add: stable_sort_def)
qed

lemma sortByExpirationDate_result:
  "sortByExpirationDate rt ex h a =
     (length h, h @ [stable_sort (compareDates rt ex) (h ! a)])"
  by (simp add: sortByExpirationDate_def Array_spread_def Array_sort_def)

lemma getSortedByExpiration_result:
  "getSortedByExpiration rt st = (stable_sort (compareDates rt p_expirationDate) (items st), st)"
  by (simp add: getSortedByExpiration_def Array_spread_def Array_sort_def)

text \<open>
  Claim C5.  For an array of items whose expiration dates parse, \<open>sortByExpirationDate\<close>
  returns a newly allocated array and leaves every array that existed, the argument among
  them, as it was.  The result holds the items of the argument, ascending by parsed
  date, and items of equal date in their original order.  An argument that is sorted
  already is returned as it is, so sorting the result again gives the same sequence.
  \<open>getSortedByExpiration\<close> returns this sort of the pantry items and leaves the state,
  with the order of its items, unchanged.
\<close>

theorem sortByExpirationDate_stable_ascending:
  "(a < length h \<and> (\<forall>x\<in>set (h ! a). valid_date rt (ex x)) \<longrightarrow>
      (case sortByExpirationDate rt ex h a of
         (r, h') \<Rightarrow>
           r = length h \<and> length h' = Suc (length h) \<and>
           (\<forall>b<length h. h' ! b = h ! b) \<and>
           sorted (map (\<lambda>x. parsed rt (ex x)) (h' ! r)) \<and>
           mset (h' ! r) = mset (h ! a) \<and>
           (\<forall>t. filter (\<lambda>x. parsed rt (ex x) = t) (h' ! r)
                  = filter (\<lambda>x. parsed rt (ex x) = t) (h ! a)) \<and>
           (sorted (map (\<lambda>x. parsed rt (ex x)) (h ! a)) \<longrightarrow> h' ! r = h ! a) \<and>
           (case sortByExpirationDate rt ex h' r of
              (r2, h2) \<Rightarrow> h2 ! r2 = h' ! r \<and> h2 ! r = h' ! r \<and> h2 ! a = h ! a))) \<and>
   (case sortByExpirationDate rt p_expirationDate [items st] 0 of
      (r, h') \<Rightarrow> getSortedByExpiration rt st = (h' ! r, st))"
proof (intro conjI impI)
  assume "a < length h \<and> (\<forall>x\<in>set (h ! a). valid_date rt (ex x))"
  then have a: "a < length h" and v: "\<forall>x\<in>set (h ! a). valid_date rt (ex x)"
    by simp_all
  let ?key = "\<lambda>x. parsed rt (ex x)"
  let ?s = "stable_sort (compareDates rt ex) (h ! a)"
  have s: "?s = sort_key ?key (h ! a)"
    using v by (rule stable_sort_sort_key)
  have again: "stable_sort (compareDates rt ex) ?s = ?s"
  proof -
    have "\<forall>x\<in>set ?s. valid_date rt (ex x)"
      using v by (simp add: s)
    then have "stable_sort (compareDates rt ex) ?s = sort_key ?key ?s"
      by (rule stable_sort_sort_key)
    also have "\<dots> = ?s"
      by (simp add: s sort_key_id_if_sorted)
    finally show ?thesis .
  qed
  have "sorted (map ?key ?s)"
    by (simp add: s)
  moreover have "mset ?s = mset (h ! a)"
    by (simp add: s)
  moreover have "\<forall>t. filter (\<lambda>x. ?key x = t) ?s = filter (\<lambda>x. ?key x = t) (h ! a)"
    by (simp add: s sort_key_stable)
  moreover have "sorted (map ?key (h ! a)) \<longrightarrow> ?s = h ! a"
    by (simp add: s sort_key_id_if_sorted)
  moreover have "\<forall>b<length h. (h @ [?s]) ! b = h ! b"
    by (simp add: nth_append)
  ultimately show "case sortByExpirationDate rt ex h a of
         (r, h') \<Rightarrow>
           r = length h \<and> length h' = Suc (length h) \<and>
           (\<forall>b<length h. h' ! b = h ! b) \<and>
           sorted (map (\<lambda>x. parsed rt (ex x)) (h' ! r)) \<and>
           mset (h' ! r) = mset (h ! a) \<and>
           (\<forall>t. filter (\<lambda>x. parsed rt (ex x) = t) (h' ! r)
                  = filter (\<lambda>x. parsed rt (ex x) = t) (h ! a)) \<and>
           (sorted (map (\<lambda>x. parsed rt (ex x)) (h ! a)) \<longrightarrow> h' ! r = h ! a) \<and>
           (case sortByExpirationDate rt ex h' r of
              (r2, h2) \<Rightarrow> h2 ! r2 = h' ! r \<and> h2 ! r = h' ! r \<and> h2 ! a = h ! a)"
    using a again by (simp add: sortByExpirationDate_result nth_append)
next
  show "case sortByExpirationDate rt p_expirationDate [items st] 0 of
      (r, h') \<Rightarrow> getSortedByExpiration rt st = (h' ! r, st)"
    by (simp add: sortByExpirationDate_result getSortedByExpiration_result)
qed

text \<open>
  The pantry of the sample store sorts to bread, the second milk, the first milk, rice;
  the stored order stays milk, bread, rice, milk.
\<close>

theorem sortByExpirationDate_stable_ascending_witness:
  "(0::nat) < length [sample_items] \<and>
   list_all (\<lambda>x. valid_date (sample_runtime 0) (p_expirationDate x)) ([sample_items] ! 0) \<and>
   map p_id (snd (sortByExpirationDate (sample_runtime 0) p_expirationDate [sample_items] 0)
               ! fst (sortByExpirationDate (sample_runtime 0) p_expirationDate [sample_items] 0))
     = [''p2'', ''p4'', ''p1'', ''p3''] \<and>
   snd (sortByExpirationDate (sample_runtime 0) p_expirationDate [sample_items] 0) ! 0
     = sample_items \<and>
   sorted (map (\<lambda>x. parsed (sample_runtime 0) (p_expirationDate x))
     (snd (sortByExpirationDate (sample_runtime 0) p_expirationDate [sample_items] 0)
        ! fst (sortByExpirationDate (sample_runtime 0) p_expirationDate [sample_items] 0))) \<and>
   map p_id (fst (getSortedByExpiration (sample_runtime 0) sample_store))
     = [''p2'', ''p4'', ''p1'', ''p3''] \<and>
   snd (getSortedByExpiration (sample_runtime 0) sample_store) = sample_store"
proof -
  let ?rt = "sample_runtime 0"
  let ?res = "sortByExpirationDate ?rt p_expirationDate [sample_items] 0"
  have h: "(0::nat) < length [sample_items] \<and>
      (\<forall>x\<in>set ([sample_items] ! 0). valid_date ?rt (p_expirationDate x))"
    by code_simp
  have i: "items sample_store = sample_items"
    by (simp add: sample_store_def)
  have e: "map p_id (snd ?res ! fst ?res) = [''p2'', ''p4'', ''p1'', ''p3'']"
    by code_simp
  note t = sortByExpirationDate_stable_ascending
    [where a = 0 and h = "[sample_items]" and rt = ?rt and ex = p_expirationDate
       and st = sample_store]
  from t h have "case ?res of
         (r, h') \<Rightarrow> (\<forall>b<length [sample_items]. h' ! b = [sample_items] ! b) \<and>
           sorted (map (\<lambda>x. parsed ?rt (p_expirationDate x)) (h' ! r))"
    by (auto split: prod.splits)
  then have "snd ?res ! 0 = sample_items"
    and "sorted (map (\<lambda>x. parsed ?rt (p_expirationDate x)) (snd ?res ! fst ?res))"
    by (auto split: prod.splits)
  moreover from t i have "getSortedByExpiration ?rt sample_store = (snd ?res ! fst ?res, sample_store)"
    by (auto split: prod.splits)
  ultimately show ?thesis using h e by (simp add: list_all_iff)
qed

end
